theory Spec2Isabelle
  imports Complex_Main "HOL-Library.AList"
begin

section \<open>Python values\<close>

text \<open>
  The platform computes with Python floats. They are modelled as \<^typ>\<open>real\<close>: the
  theorems below are about the control flow and the algebra of the code, not about
  rounding. A float that can also be \<^verbatim>\<open>float('inf')\<close> is a \<open>pyfloat\<close>. Every
  \<^verbatim>\<open>raise\<close> of the source is a value \<open>Inl e\<close> of a sum type.
\<close>

datatype error = TypeError | ZeroDivisionError | ValueError | KeyError | NonFinite

datatype pyfloat = Fin real | PInf

text \<open>Python's \<^verbatim>\<open>min(x, y)\<close> of a possibly infinite float and a finite one.\<close>

fun pyfloat_min :: "pyfloat \<Rightarrow> real \<Rightarrow> pyfloat" where
  "pyfloat_min PInf y = Fin y"
| "pyfloat_min (Fin x) y = Fin (min x y)"

text \<open>\<^verbatim>\<open>str(n)\<close> of a non-negative integer, used by the f-strings that build identifiers.\<close>

definition digit_char :: "nat \<Rightarrow> char" where
  "digit_char d = ''0123456789'' ! d"

function str_nat :: "nat \<Rightarrow> string" where
  "str_nat n = (if n < 10 then [digit_char n] else str_nat (n div 10) @ [digit_char (n mod 10)])"
  by pat_completeness auto
termination
  by (relation "measure id") auto

declare str_nat.simps [simp del]

text \<open>\<^verbatim>\<open>xs[-n:]\<close> for a non-negative \<open>n\<close>: the last \<open>n\<close> elements, and the whole list when \<open>n = 0\<close>.\<close>

definition last_n :: "nat \<Rightarrow> 'a list \<Rightarrow> 'a list" where
  "last_n n xs = (if n = 0 then xs else drop (length xs - n) xs)"

section \<open>Enumerations (src/core/enums.py)\<close>

datatype TradeType = LONG | SHORT | BOTH

datatype OrderType = MARKET | LIMIT | STOP | STOP_LIMIT

datatype OrderStatus = PENDING | OPEN | PARTIALLY_FILLED | FILLED | CANCELLED | REJECTED | EXPIRED

datatype SignalType = BUY | SELL | HOLD | STRONG_BUY | STRONG_SELL | EXIT | ENTRY

datatype StrategyState = IDLE | ACTIVE

text \<open>\<^verbatim>\<open>trade_type.value\<close>, the string of an enumeration member.\<close>

fun TradeType_value :: "TradeType \<Rightarrow> string" where
  "TradeType_value LONG = ''long''"
| "TradeType_value SHORT = ''short''"
| "TradeType_value BOTH = ''both''"

section \<open>Data models (src/data/data_models.py)\<close>

text \<open>
  Each dataclass is a record. Several classes share field names such as \<^verbatim>\<open>symbol\<close>
  and \<^verbatim>\<open>quantity\<close>, so here and in the later sections a field whose name would clash
  carries a short prefix of its class (\<open>c_\<close> Candle, \<open>md_\<close> MarketData, \<open>o_\<close> Order,
  \<open>p_\<close> Position, \<open>t_\<close> Trade, \<open>sg_\<close> Signal, \<open>sp_\<close> ScaledParameters,
  \<open>ps_\<close> PortfolioState, \<open>sc_\<close> StrategyConfig, \<open>tm_\<close> TradeMetrics).
\<close>

record Candle =
  c_timestamp :: real
  c_open :: real
  c_high :: real
  c_low :: real
  c_close :: real
  c_volume :: real
  c_quote_asset_volume :: "real option"

text \<open>\<^verbatim>\<open>Candle.__post_init__\<close>: the check every constructed candle has passed.\<close>

definition Candle_post_init :: "Candle \<Rightarrow> error + Candle" where
  "Candle_post_init c =
     (if \<not> (c_low c \<le> c_close c \<and> c_close c \<le> c_high c \<and>
             c_low c \<le> c_open c \<and> c_open c \<le> c_high c)
      then Inl ValueError else Inr c)"

record MarketData =
  md_symbol :: string
  md_candles :: "Candle list"
  md_timeframe :: string

definition get_last_n_candles :: "MarketData \<Rightarrow> nat \<Rightarrow> Candle list" where
  "get_last_n_candles md n = (if n > 0 then last_n n (md_candles md) else [])"

text \<open>
  \<^verbatim>\<open>MarketData.calculate_volatility\<close>: the returns between consecutive closes of the
  last \<open>period + 1\<close> candles, then their population standard deviation in percent.
  The float division by a close of zero raises.
\<close>

fun returns_of :: "real list \<Rightarrow> error + real list" where
  "returns_of (a # b # cs) =
     (if a = 0 then Inl ZeroDivisionError
      else (case returns_of (b # cs) of Inl e \<Rightarrow> Inl e
            | Inr rs \<Rightarrow> Inr ((b - a) / a # rs)))"
| "returns_of _ = Inr []"

definition mean :: "real list \<Rightarrow> real" where
  "mean xs = sum_list xs / real (length xs)"

definition variance :: "real list \<Rightarrow> real" where
  "variance xs = sum_list (map (\<lambda>r. (r - mean xs) ^ 2) xs) / real (length xs)"

definition calculate_volatility :: "MarketData \<Rightarrow> nat \<Rightarrow> error + real" where
  "calculate_volatility md period =
     (let candles = get_last_n_candles md (period + 1) in
      if length candles < 2 then Inr 0
      else (case returns_of (map c_close candles) of Inl e \<Rightarrow> Inl e
            | Inr returns \<Rightarrow>
                if returns = [] then Inr 0
                else Inr (sqrt (variance returns) * 100)))"

record Order =
  order_id :: string
  o_symbol :: string
  o_trade_type :: TradeType
  o_order_type :: OrderType
  o_quantity :: real
  o_price :: "real option"
  o_status :: OrderStatus
  o_created_at :: real
  o_filled_quantity :: real
  o_filled_price :: "real option"
  o_commission :: real

text \<open>
  The constructor call \<^verbatim>\<open>Order(order_id=, symbol=, trade_type=, order_type=, quantity=, price=)\<close>
  with the dataclass defaults; \<open>now\<close> is the clock reading of the default
  \<^verbatim>\<open>created_at\<close>.
\<close>

definition Order_init ::
  "real \<Rightarrow> string \<Rightarrow> string \<Rightarrow> TradeType \<Rightarrow> OrderType \<Rightarrow> real \<Rightarrow> real option \<Rightarrow> Order" where
  "Order_init now oid smb tt ot qty pr =
     \<lparr>order_id = oid, o_symbol = smb, o_trade_type = tt, o_order_type = ot, o_quantity = qty,
      o_price = pr, o_status = PENDING, o_created_at = now, o_filled_quantity = 0,
      o_filled_price = None, o_commission = 0\<rparr>"

record Position =
  position_id :: string
  p_symbol :: string
  p_trade_type :: TradeType
  p_entry_price :: real
  p_quantity :: real
  p_entry_time :: "real option"
  p_entry_orders :: "Order list"

text \<open>
  \<^verbatim>\<open>Position.add_entry_order\<close>. An order with a filled quantity and no filled price
  makes the product \<^verbatim>\<open>order.filled_quantity * order.filled_price\<close> raise.
\<close>

definition add_entry_order :: "Position \<Rightarrow> Order \<Rightarrow> error + Position" where
  "add_entry_order pos order =
     (if o_filled_quantity order = 0 then Inr pos
      else (case o_filled_price order of None \<Rightarrow> Inl TypeError
            | Some fp \<Rightarrow>
                let old_total = p_quantity pos * p_entry_price pos;
                    new_total = o_filled_quantity order * fp;
                    q = p_quantity pos + o_filled_quantity order
                in Inr (pos\<lparr>p_quantity := q,
                             p_entry_price := (if q > 0 then (old_total + new_total) / q else 0),
                             p_entry_orders := p_entry_orders pos @ [order],
                             p_entry_time := (case p_entry_time pos of
                                                None \<Rightarrow> Some (o_created_at order)
                                              | Some t \<Rightarrow> Some t)\<rparr>)))"

definition calculate_unrealized_pnl :: "Position \<Rightarrow> real \<Rightarrow> real" where
  "calculate_unrealized_pnl pos current_price =
     (if p_quantity pos = 0 then 0
      else if p_trade_type pos = LONG then (current_price - p_entry_price pos) * p_quantity pos
      else (p_entry_price pos - current_price) * p_quantity pos)"

definition calculate_unrealized_pnl_percent :: "Position \<Rightarrow> real \<Rightarrow> real" where
  "calculate_unrealized_pnl_percent pos current_price =
     (if p_entry_price pos = 0 then 0
      else if p_trade_type pos = LONG
        then ((current_price - p_entry_price pos) / p_entry_price pos) * 100
      else ((p_entry_price pos - current_price) / p_entry_price pos) * 100)"

definition is_open :: "Position \<Rightarrow> bool" where
  "is_open pos = (p_quantity pos > 0)"

record Trade =
  trade_id :: string
  t_symbol :: string
  t_entry_price :: real
  t_exit_price :: real
  t_quantity :: real
  t_entry_time :: "real option"
  t_exit_time :: real
  t_pnl :: real
  t_pnl_after_commission :: real
  t_pnl_percent :: real

definition is_profitable :: "Trade \<Rightarrow> bool" where
  "is_profitable t = (t_pnl_after_commission t > 0)"

text \<open>
  A \<^verbatim>\<open>Signal\<close>. Its \<^verbatim>\<open>rationale\<close> is a formatted message that no code reads; the
  record leaves it out. \<^verbatim>\<open>__post_init__\<close> rejects a strength outside \<open>[0, 1]\<close>.
\<close>

record Signal =
  sg_signal_type :: SignalType
  sg_symbol :: string
  sg_strength :: real
  sg_generated_at :: real

definition Signal_init :: "real \<Rightarrow> SignalType \<Rightarrow> string \<Rightarrow> real \<Rightarrow> error + Signal" where
  "Signal_init now st smb strength =
     (if \<not> (0 \<le> strength \<and> strength \<le> 1) then Inl ValueError
      else Inr \<lparr>sg_signal_type = st, sg_symbol = smb, sg_strength = strength,
                sg_generated_at = now\<rparr>)"

section \<open>Volatility calculator (src/volatility.py)\<close>

record VolatilityMeasures =
  bollinger_bandwidth :: real
  garman_klass :: real
  atr :: real
  ewma :: real
  composite :: real

text \<open>
  The calculator's periods are Python ints that are used as window lengths; they are
  natural numbers here. The four history buffers grow and shrink together.
\<close>

record VolatilityCalculator =
  bb_period :: nat
  bb_std_dev :: real
  atr_period :: nat
  ewma_alpha :: real
  closes :: "real list"
  highs :: "real list"
  lows :: "real list"
  opens :: "real list"
  previous_ewma :: "real option"

definition VolatilityCalculator_init :: "nat \<Rightarrow> real \<Rightarrow> nat \<Rightarrow> real \<Rightarrow> VolatilityCalculator" where
  "VolatilityCalculator_init bbp bbs atrp alpha =
     \<lparr>bb_period = bbp, bb_std_dev = bbs, atr_period = atrp, ewma_alpha = alpha,
      closes = [], highs = [], lows = [], opens = [], previous_ewma = None\<rparr>"

text \<open>
  Where numpy returns \<^verbatim>\<open>inf\<close> or \<^verbatim>\<open>nan\<close> (a division of numpy floats by zero, the
  logarithm of a non-positive number, the mean of an empty array) there is no real
  number to return: the model stops with \<open>NonFinite\<close>. A division of two Python floats
  by zero raises \<^verbatim>\<open>ZeroDivisionError\<close>.
\<close>

definition calculate_bollinger_bandwidth :: "VolatilityCalculator \<Rightarrow> error + real" where
  "calculate_bollinger_bandwidth vc =
     (if length (closes vc) < bb_period vc then Inr 0
      else let recent = last_n (bb_period vc) (closes vc) in
        if recent = [] \<or> mean recent = 0 then Inl NonFinite
        else Inr ((bb_std_dev vc * sqrt (variance recent)) / mean recent * 100))"

text \<open>
  One round of the Garman-Klass loop over the candle \<open>(h, l, c, o)\<close>: the summand
  \<^verbatim>\<open>0.5 * hl ** 2 - (2 * np.log(2) - 1) * co ** 2\<close>.
\<close>

definition gk_term :: "real \<Rightarrow> real \<Rightarrow> real \<Rightarrow> real \<Rightarrow> error + real" where
  "gk_term h l c o' =
     (if l = 0 then Inl ZeroDivisionError
      else if h / l \<le> 0 then Inl NonFinite
      else if o' = 0 then Inl ZeroDivisionError
      else if c / o' \<le> 0 then Inl NonFinite
      else Inr (0.5 * (ln (h / l)) ^ 2 - (2 * ln 2 - 1) * (ln (c / o')) ^ 2))"

fun gk_loop :: "real \<Rightarrow> (real \<times> real \<times> real \<times> real) list \<Rightarrow> error + real" where
  "gk_loop gk_sum [] = Inr gk_sum"
| "gk_loop gk_sum ((h, l, c, o') # rest) =
     (case gk_term h l c o' of Inl e \<Rightarrow> Inl e
      | Inr t \<Rightarrow> gk_loop (gk_sum + t) rest)"

definition calculate_garman_klass :: "VolatilityCalculator \<Rightarrow> error + real" where
  "calculate_garman_klass vc =
     (if length (closes vc) < atr_period vc then Inr 0
      else let recent_h = last_n (atr_period vc) (highs vc);
               recent_l = last_n (atr_period vc) (lows vc);
               recent_c = last_n (atr_period vc) (closes vc);
               recent_o = last_n (atr_period vc) (opens vc)
        in (case gk_loop 0 (zip recent_h (zip recent_l (zip recent_c recent_o))) of
              Inl e \<Rightarrow> Inl e
            | Inr gk_sum \<Rightarrow>
                if recent_h = [] then Inl NonFinite
                else Inr (sqrt \<bar>gk_sum / real (length recent_h)\<bar> * 100)))"

text \<open>
  The true ranges \<^verbatim>\<open>tr_values\<close> for \<open>i = 1, ..., len(closes) - 1\<close>, from
  \<^verbatim>\<open>highs[i]\<close>, \<^verbatim>\<open>lows[i]\<close> and \<^verbatim>\<open>closes[i - 1]\<close>.
\<close>

definition true_ranges :: "VolatilityCalculator \<Rightarrow> real list" where
  "true_ranges vc =
     map (\<lambda>(h, l, pc). max (max (h - l) \<bar>h - pc\<bar>) \<bar>l - pc\<bar>)
         (zip (tl (highs vc)) (zip (tl (lows vc)) (closes vc)))"

definition calculate_atr :: "VolatilityCalculator \<Rightarrow> error + real" where
  "calculate_atr vc =
     (if length (closes vc) < atr_period vc + 1 then Inr 0
      else let recent_tr = last_n (atr_period vc) (true_ranges vc) in
        if recent_tr = [] then Inl NonFinite else Inr (mean recent_tr))"

text \<open>\<^verbatim>\<open>_calculate_ewma\<close> also stores the new \<^verbatim>\<open>previous_ewma\<close>.\<close>

definition calculate_ewma :: "VolatilityCalculator \<Rightarrow> error + (real \<times> VolatilityCalculator)" where
  "calculate_ewma vc =
     (if length (closes vc) < 2 then Inr (0, vc)
      else (case returns_of (closes vc) of Inl e \<Rightarrow> Inl e
            | Inr returns \<Rightarrow>
                let new_ewma =
                      (case previous_ewma vc of
                         None \<Rightarrow> (if returns \<noteq> [] then variance returns else 0)
                       | Some prev \<Rightarrow>
                           let latest_return = (if returns \<noteq> [] then last returns else 0)
                           in ewma_alpha vc * latest_return ^ 2 + (1 - ewma_alpha vc) * prev)
                in Inr (sqrt \<bar>new_ewma\<bar> * 100, vc\<lparr>previous_ewma := Some new_ewma\<rparr>)))"

text \<open>
  \<^verbatim>\<open>VolatilityCalculator.update\<close>: append the candle, drop the oldest entry beyond
  \<open>max bb_period atr_period + 5\<close>, compute the four measures, and build the snapshot
  with the literal \<^verbatim>\<open>composite=0.0\<close>.
\<close>

definition update :: "VolatilityCalculator \<Rightarrow> real \<Rightarrow> real \<Rightarrow> real \<Rightarrow> real
    \<Rightarrow> error + (VolatilityMeasures \<times> VolatilityCalculator)" where
  "update vc high low close open_price =
     (let vc1 = vc\<lparr>closes := closes vc @ [close], highs := highs vc @ [high],
                    lows := lows vc @ [low], opens := opens vc @ [open_price]\<rparr>;
          max_history = max (bb_period vc1) (atr_period vc1) + 5;
          vc2 = (if length (closes vc1) > max_history
                 then vc1\<lparr>closes := tl (closes vc1), highs := tl (highs vc1),
                          lows := tl (lows vc1), opens := tl (opens vc1)\<rparr>
                 else vc1)
      in case calculate_bollinger_bandwidth vc2 of Inl e \<Rightarrow> Inl e
         | Inr bb \<Rightarrow>
        (case calculate_garman_klass vc2 of Inl e \<Rightarrow> Inl e
         | Inr gk \<Rightarrow>
        (case calculate_atr vc2 of Inl e \<Rightarrow> Inl e
         | Inr a \<Rightarrow>
        (case calculate_ewma vc2 of Inl e \<Rightarrow> Inl e
         | Inr (ew, vc3) \<Rightarrow>
             Inr (\<lparr>bollinger_bandwidth = bb, garman_klass = gk, atr = a, ewma = ew,
                   composite = 0\<rparr>, vc3)))))"

definition get_composite_volatility :: "VolatilityMeasures \<Rightarrow> real" where
  "get_composite_volatility ms =
     (if bollinger_bandwidth ms = 0 \<and> garman_klass ms = 0 \<and>
         atr ms = 0 \<and> ewma ms = 0 then 0
      else let normalized_atr = (if atr ms > 0 then atr ms * 100 else 0)
        in bollinger_bandwidth ms * 0.25 + garman_klass ms * 0.25 +
           normalized_atr * 0.25 + ewma ms * 0.25)"

section \<open>Adaptive parameter engine (src/adaptive_parameters.py)\<close>

record ScaledParameters =
  sp_grid_spacing_percent :: real
  sp_order_volume :: real
  sp_take_profit_percent :: real
  sp_max_drawdown_percent :: real
  sp_volatility_level :: string
  sp_scaling_factor :: real
  sp_timestamp :: real

record AdaptiveParameterConfig =
  base_grid_spacing_percent :: real
  base_order_volume :: real
  base_take_profit_percent :: real
  base_max_drawdown_percent :: real
  low_volatility_threshold :: real
  high_volatility_threshold :: real
  min_scaling_factor :: real
  max_scaling_factor :: real
  bb_weight :: real
  gk_weight :: real
  atr_weight :: real
  ewma_weight :: real
  scaling_modes :: "(string \<times> string) list"

text \<open>The dataclass defaults, \<^verbatim>\<open>AdaptiveParameterConfig()\<close>.\<close>

definition AdaptiveParameterConfig_default :: AdaptiveParameterConfig where
  "AdaptiveParameterConfig_default =
     \<lparr>base_grid_spacing_percent = 0.5, base_order_volume = 0.02,
      base_take_profit_percent = 5, base_max_drawdown_percent = 8,
      low_volatility_threshold = 1, high_volatility_threshold = 5,
      min_scaling_factor = 0.4, max_scaling_factor = 2.5,
      bb_weight = 0.25, gk_weight = 0.25, atr_weight = 0.25, ewma_weight = 0.25,
      scaling_modes = [(''grid_spacing_percent'', ''direct''), (''order_volume'', ''inverse''),
                       (''take_profit_percent'', ''direct''), (''max_drawdown_percent'', ''direct'')]\<rparr>"

record AdaptiveParameterEngine =
  ape_config :: AdaptiveParameterConfig
  volatility_history :: "real list"
  scaling_history :: "ScaledParameters list"

definition AdaptiveParameterEngine_init :: "AdaptiveParameterConfig option \<Rightarrow> AdaptiveParameterEngine" where
  "AdaptiveParameterEngine_init cfg =
     \<lparr>ape_config = (case cfg of None \<Rightarrow> AdaptiveParameterConfig_default | Some c \<Rightarrow> c),
      volatility_history = [], scaling_history = []\<rparr>"

definition calculate_composite_volatility :: "AdaptiveParameterConfig \<Rightarrow> VolatilityMeasures \<Rightarrow> real" where
  "calculate_composite_volatility cfg ms =
     (let normalized_atr = (if atr ms > 0 then atr ms * 100 else 0);
          comp = bollinger_bandwidth ms * bb_weight cfg +
                 garman_klass ms * gk_weight cfg +
                 normalized_atr * atr_weight cfg +
                 ewma ms * ewma_weight cfg
      in max 0 comp)"

text \<open>\<^verbatim>\<open>_classify_volatility\<close>, with the branches in the order of the source.\<close>

definition classify_volatility :: "AdaptiveParameterConfig \<Rightarrow> real \<Rightarrow> string" where
  "classify_volatility cfg volatility =
     (if volatility < low_volatility_threshold cfg then ''LOW''
      else if volatility > high_volatility_threshold cfg then ''HIGH''
      else if volatility > high_volatility_threshold cfg * 1.5 then ''EXTREME''
      else ''NORMAL'')"

definition calculate_scaling_factor :: "AdaptiveParameterConfig \<Rightarrow> real \<Rightarrow> real" where
  "calculate_scaling_factor cfg volatility =
     (let reference_vol0 = (low_volatility_threshold cfg + high_volatility_threshold cfg) / 2;
          reference_vol = (if reference_vol0 = 0 then 1 else reference_vol0);
          scaling = volatility / reference_vol
      in max (min_scaling_factor cfg) (min (max_scaling_factor cfg) scaling))"

definition scale_parameter :: "AdaptiveParameterConfig \<Rightarrow> real \<Rightarrow> real \<Rightarrow> string \<Rightarrow> error + real" where
  "scale_parameter cfg base_value scaling_factor param_name =
     (let mode = (case map_of (scaling_modes cfg) param_name of None \<Rightarrow> ''direct'' | Some m \<Rightarrow> m)
      in if mode = ''direct'' then Inr (max 0 (base_value * scaling_factor))
         else if scaling_factor = 0 then Inl ZeroDivisionError
         else Inr (max 0 (base_value / scaling_factor)))"

definition scale_parameters :: "AdaptiveParameterEngine \<Rightarrow> VolatilityMeasures
    \<Rightarrow> error + (ScaledParameters \<times> AdaptiveParameterEngine)" where
  "scale_parameters eng ms =
     (let cfg = ape_config eng;
          composite_vol = calculate_composite_volatility cfg ms;
          vol_level = classify_volatility cfg composite_vol;
          scaling_factor = calculate_scaling_factor cfg composite_vol
      in case scale_parameter cfg (base_grid_spacing_percent cfg) scaling_factor ''grid_spacing_percent'' of
           Inl e \<Rightarrow> Inl e
         | Inr gs \<Rightarrow>
        (case scale_parameter cfg (base_order_volume cfg) scaling_factor ''order_volume'' of
           Inl e \<Rightarrow> Inl e
         | Inr ov \<Rightarrow>
        (case scale_parameter cfg (base_take_profit_percent cfg) scaling_factor ''take_profit_percent'' of
           Inl e \<Rightarrow> Inl e
         | Inr tp \<Rightarrow>
        (case scale_parameter cfg (base_max_drawdown_percent cfg) scaling_factor ''max_drawdown_percent'' of
           Inl e \<Rightarrow> Inl e
         | Inr dd \<Rightarrow>
             let scaled = \<lparr>sp_grid_spacing_percent = gs, sp_order_volume = ov,
                           sp_take_profit_percent = tp, sp_max_drawdown_percent = dd,
                           sp_volatility_level = vol_level, sp_scaling_factor = scaling_factor,
                           sp_timestamp = 0\<rparr>
             in Inr (scaled, eng\<lparr>volatility_history := volatility_history eng @ [composite_vol],
                                  scaling_history := scaling_history eng @ [scaled]\<rparr>)))))"

section \<open>Grid trading strategy (src/strategies/grid_strategy.py)\<close>

text \<open>\<^verbatim>\<open>GridTradingParams\<close> (src/config_models.py); fields prefixed \<open>gp_\<close>.\<close>

record GridTradingParams =
  gp_initial_position_size :: real
  gp_grid_spacing_percent :: real
  gp_grid_levels :: nat
  gp_take_profit_percent :: real
  gp_max_drawdown_percent :: real
  gp_max_position_size_percent :: real
  gp_order_type :: string
  gp_limit_order_timeout_seconds :: nat

text \<open>
  A \<^verbatim>\<open>GridTradingStrategy\<close> object: the fields of \<^verbatim>\<open>Strategy.__init__\<close>, of
  \<^verbatim>\<open>AdaptiveStrategyMixin.initialize_adaptive\<close> and of its own constructor.
  \<^verbatim>\<open>symbol\<close> and \<^verbatim>\<open>trade_type\<close> are prefixed \<open>s_\<close>.
\<close>

record GridTradingStrategy =
  s_symbol :: string
  s_trade_type :: TradeType
  state :: StrategyState
  position :: "Position option"
  entry_orders :: "Order list"
  exit_orders :: "Order list"
  vol_calculator :: VolatilityCalculator
  param_engine :: AdaptiveParameterEngine
  current_measures :: "VolatilityMeasures option"
  current_scaled :: "ScaledParameters option"
  params :: GridTradingParams
  grid_prices :: "real list"
  entry_signal_generated :: bool
  current_max_price :: real
  current_min_price :: pyfloat

definition GridTradingStrategy_init :: "string \<Rightarrow> TradeType \<Rightarrow> GridTradingParams \<Rightarrow> GridTradingStrategy" where
  "GridTradingStrategy_init smb tt ps =
     \<lparr>s_symbol = smb, s_trade_type = tt, state = IDLE, position = None,
      entry_orders = [], exit_orders = [],
      vol_calculator = VolatilityCalculator_init 20 2 14 0.33,
      param_engine = AdaptiveParameterEngine_init None,
      current_measures = None, current_scaled = None,
      params = ps, grid_prices = [], entry_signal_generated = False,
      current_max_price = 0, current_min_price = PInf\<rparr>"

text \<open>\<^verbatim>\<open>Strategy.reset\<close>: five assignments.\<close>

definition reset :: "GridTradingStrategy \<Rightarrow> GridTradingStrategy" where
  "reset s = s\<lparr>state := IDLE, position := None, entry_signal_generated := False,
              entry_orders := [], exit_orders := []\<rparr>"

text \<open>
  \<^verbatim>\<open>GridTradingStrategy.analyze\<close>. \<^verbatim>\<open>GridTradingParams\<close> declares no field
  \<^verbatim>\<open>min_volatility_threshold\<close>, so the \<^verbatim>\<open>hasattr\<close> test fails and the threshold is
  the literal \<open>0.1\<close>. \<open>now\<close> is the clock reading stored in the signal.
\<close>

definition analyze :: "GridTradingStrategy \<Rightarrow> real \<Rightarrow> MarketData
    \<Rightarrow> error + (Signal list \<times> GridTradingStrategy)" where
  "analyze s now market_data =
     (if state s = IDLE \<and> \<not> entry_signal_generated s then
        (case calculate_volatility market_data 20 of Inl e \<Rightarrow> Inl e
         | Inr volatility \<Rightarrow>
             let min_vol_threshold = 0.1 in
             if volatility \<ge> min_vol_threshold then
               (let signal_type = (if s_trade_type s = LONG then BUY else SELL) in
                case Signal_init now signal_type (s_symbol s) (min (volatility / 10) 1) of
                  Inl e \<Rightarrow> Inl e
                | Inr signal \<Rightarrow> Inr ([signal], s\<lparr>entry_signal_generated := True\<rparr>))
             else Inr ([], s))
      else Inr ([], s))"

text \<open>
  \<^verbatim>\<open>generate_grid_orders\<close>: one limit order per grid level, below the entry price for
  LONG and above it otherwise; the prices are also appended to \<^verbatim>\<open>grid_prices\<close>.
\<close>

definition grid_price :: "TradeType \<Rightarrow> real \<Rightarrow> real \<Rightarrow> nat \<Rightarrow> real" where
  "grid_price tt entry_price grid_spacing level =
     (if tt = LONG then entry_price * (1 - grid_spacing * real level)
      else entry_price * (1 + grid_spacing * real level))"

definition grid_order :: "GridTradingStrategy \<Rightarrow> real \<Rightarrow> real \<Rightarrow> real \<Rightarrow> real \<Rightarrow> nat \<Rightarrow> Order" where
  "grid_order s now entry_price size_per_order grid_spacing level =
     Order_init now
       (s_symbol s @ ''_'' @ TradeType_value (s_trade_type s) @ ''_grid_'' @ str_nat level)
       (s_symbol s)
       (if s_trade_type s = LONG then LONG else SHORT)
       LIMIT size_per_order
       (Some (grid_price (s_trade_type s) entry_price grid_spacing level))"

definition generate_grid_orders :: "GridTradingStrategy \<Rightarrow> real \<Rightarrow> real \<Rightarrow> real \<Rightarrow> real
    \<Rightarrow> error + (Order list \<times> GridTradingStrategy)" where
  "generate_grid_orders s now entry_price position_size current_price =
     (let grid_spacing_percent =
            (case current_scaled s of Some sc \<Rightarrow> sp_grid_spacing_percent sc
             | None \<Rightarrow> gp_grid_spacing_percent (params s))
      in if gp_grid_levels (params s) = 0 then Inl ZeroDivisionError
         else
           let size_per_order = position_size / real (gp_grid_levels (params s));
               grid_spacing = grid_spacing_percent / 100;
               levels = [0 ..< gp_grid_levels (params s)]
           in Inr (map (grid_order s now entry_price size_per_order grid_spacing) levels,
                   s\<lparr>grid_prices := grid_prices s @
                        map (grid_price (s_trade_type s) entry_price grid_spacing) levels\<rparr>))"

text \<open>
  \<^verbatim>\<open>check_exit_conditions\<close>. \<^verbatim>\<open>position or self.position\<close> takes the argument unless
  it is \<^verbatim>\<open>None\<close> (a Position object is always true). With no position, or a position
  of quantity \<open>\<le> 0\<close>, the function returns \<^verbatim>\<open>None\<close> before it touches the strategy.
  The local \<^verbatim>\<open>drawdown\<close> of the stop-loss branch is guarded against a zero divisor
  and never read; it is left out.
\<close>

definition exit_signal :: "GridTradingStrategy \<Rightarrow> real \<Rightarrow> error + Signal" where
  "exit_signal s now = Signal_init now EXIT (s_symbol s) 1"

definition check_exit_conditions :: "GridTradingStrategy \<Rightarrow> real \<Rightarrow> real \<Rightarrow> real
    \<Rightarrow> Position option \<Rightarrow> error + (Signal option \<times> GridTradingStrategy)" where
  "check_exit_conditions s now current_price account_equity position_arg =
     (let pos_opt = (case position_arg of Some p \<Rightarrow> Some p | None \<Rightarrow> position s) in
      case pos_opt of
        None \<Rightarrow> Inr (None, s)
      | Some pos \<Rightarrow>
          if \<not> is_open pos then Inr (None, s)
          else
            let s1 = s\<lparr>current_max_price := max (current_max_price s) current_price,
                       current_min_price := pyfloat_min (current_min_price s) current_price\<rparr>;
                tp_percent = (case current_scaled s1 of Some sc \<Rightarrow> sp_take_profit_percent sc
                              | None \<Rightarrow> gp_take_profit_percent (params s1));
                dd_percent = (case current_scaled s1 of Some sc \<Rightarrow> sp_max_drawdown_percent sc
                              | None \<Rightarrow> gp_max_drawdown_percent (params s1));
                pnl_percent = calculate_unrealized_pnl_percent pos current_price
            in if pnl_percent \<ge> tp_percent then
                 (case exit_signal s1 now of Inl e \<Rightarrow> Inl e | Inr sg \<Rightarrow> Inr (Some sg, s1))
               else if p_entry_orders pos \<noteq> [] then
                 (let max_loss_allowed = account_equity * (dd_percent / 100);
                      current_loss = \<bar>calculate_unrealized_pnl pos current_price\<bar>
                  in if current_loss \<ge> max_loss_allowed then
                       (case exit_signal s1 now of Inl e \<Rightarrow> Inl e | Inr sg \<Rightarrow> Inr (Some sg, s1))
                     else Inr (None, s1))
               else Inr (None, s1))"

text \<open>\<^verbatim>\<open>AdaptiveStrategyMixin.update_adaptive_parameters\<close> (src/adaptive_integration.py).\<close>

definition update_adaptive_parameters :: "GridTradingStrategy \<Rightarrow> real \<Rightarrow> real \<Rightarrow> real \<Rightarrow> real
    \<Rightarrow> error + (ScaledParameters \<times> GridTradingStrategy)" where
  "update_adaptive_parameters s high low close open_price =
     (case update (vol_calculator s) high low close open_price of Inl e \<Rightarrow> Inl e
      | Inr (ms, vc) \<Rightarrow>
          (case scale_parameters (param_engine s) ms of Inl e \<Rightarrow> Inl e
           | Inr (scaled, eng) \<Rightarrow>
               Inr (scaled, s\<lparr>vol_calculator := vc, current_measures := Some ms,
                              param_engine := eng, current_scaled := Some scaled\<rparr>)))"

section \<open>Order execution simulator (src/core/backtest_engine.py)\<close>

record OrderExecutor =
  maker_fee :: real
  taker_fee :: real
  slippage :: real

text \<open>\<^verbatim>\<open>OrderExecutor.__init__\<close>: the three percentages are stored as fractions.\<close>

definition OrderExecutor_init :: "real \<Rightarrow> real \<Rightarrow> real \<Rightarrow> OrderExecutor" where
  "OrderExecutor_init mf tf sl =
     \<lparr>maker_fee = mf / 100, taker_fee = tf / 100, slippage = sl / 100\<rparr>"

text \<open>
  \<^verbatim>\<open>execute_limit_order\<close> returns the pair (filled quantity, fill price), and
  \<open>(0, 0)\<close> when the candle does not reach the order. Every trade type other than
  LONG takes the SHORT branch. Comparing a missing price with a float raises.
\<close>

definition execute_limit_order :: "OrderExecutor \<Rightarrow> Order \<Rightarrow> Candle \<Rightarrow> error + (real \<times> real)" where
  "execute_limit_order ex order candle =
     (case o_price order of
        None \<Rightarrow> Inl TypeError
      | Some pr \<Rightarrow>
          if o_trade_type order = LONG then
            (if c_low candle \<le> pr
             then Inr (o_quantity order, min pr (c_close candle) * (1 + slippage ex))
             else Inr (0, 0))
          else
            (if c_high candle \<ge> pr
             then Inr (o_quantity order, max pr (c_close candle) * (1 - slippage ex))
             else Inr (0, 0)))"

definition calculate_commission :: "OrderExecutor \<Rightarrow> real \<Rightarrow> real \<Rightarrow> bool \<Rightarrow> real" where
  "calculate_commission ex qty pr is_maker =
     qty * pr * (if is_maker then maker_fee ex else taker_fee ex)"

section \<open>Portfolio and metrics records (src/core/backtest_engine.py)\<close>

text \<open>The dictionary \<^verbatim>\<open>positions\<close> is an association list in insertion order.\<close>

record PortfolioState =
  ps_timestamp :: real
  cash_balance :: real
  positions :: "(string \<times> Position) list"
  closed_trades :: "Trade list"
  total_fees :: real

definition PortfolioState_init :: "real \<Rightarrow> real \<Rightarrow> PortfolioState" where
  "PortfolioState_init ts cash =
     \<lparr>ps_timestamp = ts, cash_balance = cash, positions = [], closed_trades = [], total_fees = 0\<rparr>"

text \<open>The three derived properties. Both P&L sums call \<^verbatim>\<open>calculate_unrealized_pnl(0.0)\<close>.\<close>

definition total_equity :: "PortfolioState \<Rightarrow> real" where
  "total_equity ps =
     cash_balance ps + sum_list (map (\<lambda>pos. calculate_unrealized_pnl pos 0) (map snd (positions ps)))"

definition realized_pnl :: "PortfolioState \<Rightarrow> real" where
  "realized_pnl ps = sum_list (map t_pnl_after_commission (closed_trades ps))"

definition unrealized_pnl :: "PortfolioState \<Rightarrow> real" where
  "unrealized_pnl ps =
     sum_list (map (\<lambda>pos. calculate_unrealized_pnl pos 0) (map snd (positions ps)))"

record BacktestMetrics =
  total_return_percent :: real
  total_trades :: nat
  winning_trades :: nat
  losing_trades :: nat
  win_rate :: real
  average_win :: real
  average_loss :: real
  profit_factor :: real
  sharpe_ratio :: real
  sortino_ratio :: real
  calmar_ratio :: real
  max_drawdown_percent :: real
  max_drawdown_duration_days :: nat
  best_trade_percent :: real
  worst_trade_percent :: real
  average_trade_duration_days :: real
  consecutive_wins :: nat
  consecutive_losses :: nat

definition BacktestMetrics_init :: BacktestMetrics where
  "BacktestMetrics_init =
     \<lparr>total_return_percent = 0, total_trades = 0, winning_trades = 0, losing_trades = 0,
      win_rate = 0, average_win = 0, average_loss = 0, profit_factor = 0, sharpe_ratio = 0,
      sortino_ratio = 0, calmar_ratio = 0, max_drawdown_percent = 0,
      max_drawdown_duration_days = 0, best_trade_percent = 0, worst_trade_percent = 0,
      average_trade_duration_days = 0, consecutive_wins = 0, consecutive_losses = 0\<rparr>"

text \<open>\<^verbatim>\<open>BacktestConfig\<close> and \<^verbatim>\<open>StrategyConfig\<close> (src/config_models.py), the fields the engine reads.\<close>

record BacktestConfig =
  initial_balance :: real
  maker_fee_percent :: real
  taker_fee_percent :: real
  slippage_percent :: real

record StrategyConfig =
  sc_symbol :: string
  long_params :: GridTradingParams
  short_params :: GridTradingParams
  enable_long :: bool
  enable_short :: bool

text \<open>
  The engine object. The \<^verbatim>\<open>PortfolioState\<close> objects it creates live in \<open>heap\<close>, and a
  reference to one is its index there: \<^verbatim>\<open>portfolio_history\<close> is a Python list of
  references, so it is a list of indices. \<open>get_portfolio_history\<close> reads the objects
  the list refers to.
\<close>

record BacktestEngine =
  be_config :: BacktestConfig
  heap :: "PortfolioState list"
  portfolio_history :: "nat list"
  all_trades :: "Trade list"
  order_executor :: OrderExecutor

definition BacktestEngine_init :: "BacktestConfig \<Rightarrow> BacktestEngine" where
  "BacktestEngine_init cfg =
     \<lparr>be_config = cfg, heap = [], portfolio_history = [], all_trades = [],
      order_executor = OrderExecutor_init (maker_fee_percent cfg) (taker_fee_percent cfg)
                         (slippage_percent cfg)\<rparr>"

definition get_portfolio_history :: "BacktestEngine \<Rightarrow> PortfolioState list" where
  "get_portfolio_history eng = map (\<lambda>a. heap eng ! a) (portfolio_history eng)"

definition get_trades :: "BacktestEngine \<Rightarrow> Trade list" where
  "get_trades eng = all_trades eng"

section \<open>The backtest loop (BacktestEngine.run_backtest)\<close>

text \<open>
  The state the loop body works on: the two local dictionaries, the contents of the
  live portfolio object, and \<^verbatim>\<open>self.all_trades\<close>.
\<close>

record LoopState =
  ls_strategies :: "(string \<times> (GridTradingStrategy option \<times> GridTradingStrategy option)) list"
  ls_pending_orders :: "(string \<times> Order list) list"
  ls_portfolio :: PortfolioState
  ls_all_trades :: "Trade list"

text \<open>STEP 1: every pending order of the symbol is tried against the candle.\<close>

fun check_fills :: "OrderExecutor \<Rightarrow> Candle \<Rightarrow> Order list
    \<Rightarrow> error + ((Order \<times> real \<times> real) list \<times> Order list)" where
  "check_fills ex candle [] = Inr ([], [])"
| "check_fills ex candle (order # rest) =
     (case execute_limit_order ex order candle of Inl e \<Rightarrow> Inl e
      | Inr (filled_qty, fill_price) \<Rightarrow>
          (case check_fills ex candle rest of Inl e \<Rightarrow> Inl e
           | Inr (filled_orders, remaining_orders) \<Rightarrow>
               if filled_qty > 0
               then Inr ((order, filled_qty, fill_price) # filled_orders, remaining_orders)
               else Inr (filled_orders, order # remaining_orders)))"

definition step1_check_pending :: "OrderExecutor \<Rightarrow> Candle \<Rightarrow> string \<Rightarrow> (string \<times> Order list) list
    \<Rightarrow> error + ((Order \<times> real \<times> real) list \<times> (string \<times> Order list) list)" where
  "step1_check_pending ex candle smb pending_orders =
     (case map_of pending_orders smb of
        None \<Rightarrow> Inr ([], pending_orders)
      | Some orders \<Rightarrow>
          (case check_fills ex candle orders of Inl e \<Rightarrow> Inl e
           | Inr (filled_orders, remaining_orders) \<Rightarrow>
               Inr (filled_orders, AList.update smb remaining_orders pending_orders)))"

text \<open>
  STEP 2, one round of the loop over the filled orders: the commission, the new or
  re-averaged position, the cash debit. The \<^verbatim>\<open>Position(...)\<close> call passes no
  \<^verbatim>\<open>entry_orders\<close>, so the new position has the default empty list; the re-averaging
  branch assigns \<^verbatim>\<open>entry_price\<close>, \<^verbatim>\<open>quantity\<close> and \<^verbatim>\<open>entry_time\<close> only.
\<close>

definition process_filled_order :: "OrderExecutor \<Rightarrow> string \<Rightarrow> nat \<Rightarrow> Candle \<Rightarrow> PortfolioState
    \<Rightarrow> (Order \<times> real \<times> real) \<Rightarrow> error + PortfolioState" where
  "process_filled_order ex smb candle_idx candle portfolio filled =
     (case filled of (order, filled_qty, fill_price) \<Rightarrow>
        let commission = calculate_commission ex filled_qty fill_price True;
            p1 = portfolio\<lparr>total_fees := total_fees portfolio + commission,
                           cash_balance := cash_balance portfolio - commission\<rparr>
        in case map_of (positions p1) smb of
             None \<Rightarrow>
               let pos = \<lparr>position_id = smb @ ''_'' @ TradeType_value (o_trade_type order) @ ''_''
                                           @ str_nat candle_idx,
                          p_symbol = smb, p_trade_type = o_trade_type order,
                          p_entry_price = fill_price, p_quantity = filled_qty,
                          p_entry_time = Some (c_timestamp candle), p_entry_orders = []\<rparr>;
                   p2 = p1\<lparr>positions := AList.update smb pos (positions p1)\<rparr>
               in Inr (p2\<lparr>cash_balance := cash_balance p2 - filled_qty * fill_price\<rparr>)
           | Some pos \<Rightarrow>
               let total_qty = p_quantity pos + filled_qty in
               if total_qty = 0 then Inl ZeroDivisionError
               else
                 let pos' = pos\<lparr>p_entry_price :=
                                   (p_entry_price pos * p_quantity pos + fill_price * filled_qty)
                                     / total_qty,
                                 p_quantity := total_qty,
                                 p_entry_time := (case p_entry_time pos of
                                                    None \<Rightarrow> Some (c_timestamp candle)
                                                  | Some t \<Rightarrow> Some t)\<rparr>;
                     p2 = p1\<lparr>positions := AList.update smb pos' (positions p1)\<rparr>
                 in Inr (p2\<lparr>cash_balance := cash_balance p2 - filled_qty * fill_price\<rparr>))"

fun step2_process_fills :: "OrderExecutor \<Rightarrow> string \<Rightarrow> nat \<Rightarrow> Candle \<Rightarrow> PortfolioState
    \<Rightarrow> (Order \<times> real \<times> real) list \<Rightarrow> error + PortfolioState" where
  "step2_process_fills ex smb candle_idx candle portfolio [] = Inr portfolio"
| "step2_process_fills ex smb candle_idx candle portfolio (filled # rest) =
     (case process_filled_order ex smb candle_idx candle portfolio filled of Inl e \<Rightarrow> Inl e
      | Inr portfolio' \<Rightarrow> step2_process_fills ex smb candle_idx candle portfolio' rest)"

text \<open>
  STEP 3 for one of the two strategies of the symbol (the source repeats the block for
  the long and for the short strategy). \<^verbatim>\<open>pending_orders\<close> is a \<^verbatim>\<open>defaultdict(list)\<close>:
  extending a missing key starts from the empty list.
\<close>

definition pending_extend :: "(string \<times> Order list) list \<Rightarrow> string \<Rightarrow> Order list
    \<Rightarrow> (string \<times> Order list) list" where
  "pending_extend pending_orders smb grid_orders =
     AList.update smb ((case map_of pending_orders smb of None \<Rightarrow> [] | Some os \<Rightarrow> os) @ grid_orders)
       pending_orders"

definition step3_entry :: "BacktestConfig \<Rightarrow> real \<Rightarrow> Candle \<Rightarrow> MarketData \<Rightarrow> string
    \<Rightarrow> GridTradingStrategy option \<Rightarrow> (string \<times> Order list) list
    \<Rightarrow> error + (GridTradingStrategy option \<times> (string \<times> Order list) list)" where
  "step3_entry cfg now candle market_data smb strat pending_orders =
     (case strat of
        None \<Rightarrow> Inr (None, pending_orders)
      | Some st \<Rightarrow>
          if position st \<noteq> None then Inr (Some st, pending_orders)
          else
            (case analyze st now market_data of Inl e \<Rightarrow> Inl e
             | Inr (signals, st1) \<Rightarrow>
                 if signals \<noteq> [] then
                   (let entry_price = c_close candle in
                    if entry_price = 0 then Inl ZeroDivisionError
                    else
                      let position_size = initial_balance cfg * 0.1 / entry_price in
                      case generate_grid_orders st1 now entry_price position_size (c_close candle) of
                        Inl e \<Rightarrow> Inl e
                      | Inr (grid_orders, st2) \<Rightarrow>
                          Inr (Some st2, pending_extend pending_orders smb grid_orders))
                 else Inr (Some st1, pending_orders)))"

text \<open>
  STEP 4, closing a position at the candle's close: the P&L (by direction), the exit
  commission, the trade record, the deletion of the position. The block ends with the
  \<^verbatim>\<open>del\<close> and the \<^verbatim>\<open>print\<close>; it does not touch the strategy.
\<close>

definition close_position :: "OrderExecutor \<Rightarrow> string \<Rightarrow> nat \<Rightarrow> Candle \<Rightarrow> TradeType
    \<Rightarrow> PortfolioState \<Rightarrow> Position \<Rightarrow> error + (PortfolioState \<times> Trade)" where
  "close_position ex smb candle_idx candle tt portfolio pos =
     (let current_price = c_close candle;
          pnl = (if tt = LONG then (current_price - p_entry_price pos) * p_quantity pos
                 else (p_entry_price pos - current_price) * p_quantity pos);
          commission = calculate_commission ex (p_quantity pos) current_price True;
          pnl_after_commission = pnl - commission;
          p1 = portfolio\<lparr>total_fees := total_fees portfolio + commission,
                         cash_balance := cash_balance portfolio
                                           + ((p_quantity pos * current_price) - commission)\<rparr>
      in if p_entry_price pos > 0 \<and> p_entry_price pos * p_quantity pos = 0
         then Inl ZeroDivisionError
         else
           let trade = \<lparr>trade_id = smb @ (if tt = LONG then ''_L_'' else ''_S_'') @ str_nat candle_idx,
                        t_symbol = smb, t_entry_price = p_entry_price pos,
                        t_exit_price = current_price, t_quantity = p_quantity pos,
                        t_entry_time = p_entry_time pos, t_exit_time = c_timestamp candle,
                        t_pnl = pnl, t_pnl_after_commission = pnl_after_commission,
                        t_pnl_percent = (if p_entry_price pos > 0
                                         then (pnl / (p_entry_price pos * p_quantity pos)) * 100
                                         else 0)\<rparr>
           in Inr (p1\<lparr>closed_trades := closed_trades p1 @ [trade],
                       positions := AList.delete smb (positions p1)\<rparr>, trade))"

definition step4_exit :: "OrderExecutor \<Rightarrow> real \<Rightarrow> string \<Rightarrow> nat \<Rightarrow> Candle
    \<Rightarrow> GridTradingStrategy option \<Rightarrow> GridTradingStrategy option \<Rightarrow> PortfolioState \<Rightarrow> Trade list
    \<Rightarrow> error + (GridTradingStrategy option \<times> GridTradingStrategy option \<times> PortfolioState \<times> Trade list)" where
  "step4_exit ex now smb candle_idx candle long_strat short_strat portfolio trades =
     (case map_of (positions portfolio) smb of
        None \<Rightarrow> Inr (long_strat, short_strat, portfolio, trades)
      | Some pos \<Rightarrow>
          let current_price = c_close candle in
          if p_trade_type pos = LONG \<and> long_strat \<noteq> None then
            (case long_strat of None \<Rightarrow> Inr (long_strat, short_strat, portfolio, trades)
             | Some ls \<Rightarrow>
                 (case check_exit_conditions ls now current_price (total_equity portfolio) (Some pos) of
                    Inl e \<Rightarrow> Inl e
                  | Inr (None, ls') \<Rightarrow> Inr (Some ls', short_strat, portfolio, trades)
                  | Inr (Some sg, ls') \<Rightarrow>
                      (case close_position ex smb candle_idx candle LONG portfolio pos of
                         Inl e \<Rightarrow> Inl e
                       | Inr (portfolio', trade) \<Rightarrow>
                           Inr (Some ls', short_strat, portfolio', trades @ [trade]))))
          else if p_trade_type pos = SHORT \<and> short_strat \<noteq> None then
            (case short_strat of None \<Rightarrow> Inr (long_strat, short_strat, portfolio, trades)
             | Some ss \<Rightarrow>
                 (case check_exit_conditions ss now current_price (total_equity portfolio) (Some pos) of
                    Inl e \<Rightarrow> Inl e
                  | Inr (None, ss') \<Rightarrow> Inr (long_strat, Some ss', portfolio, trades)
                  | Inr (Some sg, ss') \<Rightarrow>
                      (case close_position ex smb candle_idx candle SHORT portfolio pos of
                         Inl e \<Rightarrow> Inl e
                       | Inr (portfolio', trade) \<Rightarrow>
                           Inr (long_strat, Some ss', portfolio', trades @ [trade]))))
          else Inr (long_strat, short_strat, portfolio, trades))"

text \<open>
  The body of the loop over the symbols. A symbol without market data is skipped
  (\<^verbatim>\<open>continue\<close>). The candle is \<^verbatim>\<open>market_data.candles[candle_idx]\<close>; the index is below
  the length of every candle list, since the loop runs up to the shortest one.
\<close>

definition process_symbol :: "BacktestConfig \<Rightarrow> OrderExecutor \<Rightarrow> real \<Rightarrow> nat
    \<Rightarrow> (string \<times> MarketData) list \<Rightarrow> string \<Rightarrow> LoopState \<Rightarrow> error + LoopState" where
  "process_symbol cfg ex now candle_idx market_data_dict smb ls =
     (case map_of market_data_dict smb of
        None \<Rightarrow> Inr ls
      | Some market_data \<Rightarrow>
          let candle = md_candles market_data ! candle_idx in
          case map_of (ls_strategies ls) smb of
            None \<Rightarrow> Inl KeyError
          | Some (long_strat, short_strat) \<Rightarrow>
         (case step1_check_pending ex candle smb (ls_pending_orders ls) of Inl e \<Rightarrow> Inl e
          | Inr (filled_orders, pending1) \<Rightarrow>
         (case step2_process_fills ex smb candle_idx candle (ls_portfolio ls) filled_orders of
            Inl e \<Rightarrow> Inl e
          | Inr portfolio1 \<Rightarrow>
         (case step3_entry cfg now candle market_data smb long_strat pending1 of Inl e \<Rightarrow> Inl e
          | Inr (long1, pending2) \<Rightarrow>
         (case step3_entry cfg now candle market_data smb short_strat pending2 of Inl e \<Rightarrow> Inl e
          | Inr (short1, pending3) \<Rightarrow>
         (case step4_exit ex now smb candle_idx candle long1 short1 portfolio1 (ls_all_trades ls) of
            Inl e \<Rightarrow> Inl e
          | Inr (long2, short2, portfolio2, trades2) \<Rightarrow>
              Inr \<lparr>ls_strategies = AList.update smb (long2, short2) (ls_strategies ls),
                   ls_pending_orders = pending3,
                   ls_portfolio = portfolio2,
                   ls_all_trades = trades2\<rparr>))))))"

fun process_symbols :: "BacktestConfig \<Rightarrow> OrderExecutor \<Rightarrow> real \<Rightarrow> nat
    \<Rightarrow> (string \<times> MarketData) list \<Rightarrow> string list \<Rightarrow> LoopState \<Rightarrow> error + LoopState" where
  "process_symbols cfg ex now candle_idx market_data_dict [] ls = Inr ls"
| "process_symbols cfg ex now candle_idx market_data_dict (smb # rest) ls =
     (case process_symbol cfg ex now candle_idx market_data_dict smb ls of Inl e \<Rightarrow> Inl e
      | Inr ls' \<Rightarrow> process_symbols cfg ex now candle_idx market_data_dict rest ls')"

text \<open>
  One candle. \<open>a\<close> is the reference held by the local variable \<^verbatim>\<open>portfolio\<close>. The
  object it refers to is mutated in place through the symbols' steps, and then
  \<^verbatim>\<open>self.portfolio_history.append(portfolio)\<close> appends the reference \<open>a\<close> itself.
\<close>

definition process_candle :: "(nat \<Rightarrow> real) \<Rightarrow> (string \<times> MarketData) list \<Rightarrow> nat \<Rightarrow> nat
    \<Rightarrow> BacktestEngine \<times> LoopState \<Rightarrow> error + (BacktestEngine \<times> LoopState)" where
  "process_candle clock market_data_dict a candle_idx st =
     (case st of (eng, ls) \<Rightarrow>
        (case process_symbols (be_config eng) (order_executor eng) (clock candle_idx) candle_idx
                market_data_dict (map fst (ls_strategies ls)) ls of
           Inl e \<Rightarrow> Inl e
         | Inr ls' \<Rightarrow>
             Inr (eng\<lparr>heap := (heap eng)[a := ls_portfolio ls'],
                      all_trades := ls_all_trades ls',
                      portfolio_history := portfolio_history eng @ [a]\<rparr>, ls')))"

fun process_candles :: "(nat \<Rightarrow> real) \<Rightarrow> (string \<times> MarketData) list \<Rightarrow> nat \<Rightarrow> nat list
    \<Rightarrow> BacktestEngine \<times> LoopState \<Rightarrow> error + (BacktestEngine \<times> LoopState)" where
  "process_candles clock market_data_dict a [] st = Inr st"
| "process_candles clock market_data_dict a (candle_idx # rest) st =
     (case process_candle clock market_data_dict a candle_idx st of Inl e \<Rightarrow> Inl e
      | Inr st' \<Rightarrow> process_candles clock market_data_dict a rest st')"

text \<open>\<^verbatim>\<open>max(trades, key=...)\<close> and \<^verbatim>\<open>min(...)\<close> over a non-empty list of keys.\<close>

fun list_max :: "real list \<Rightarrow> real" where
  "list_max [] = 0"
| "list_max (x # xs) = fold max xs x"

fun list_min :: "real list \<Rightarrow> real" where
  "list_min [] = 0"
| "list_min (x # xs) = fold min xs x"

text \<open>\<^verbatim>\<open>Trade.duration_seconds\<close>: subtracting a missing entry time raises.\<close>

fun durations :: "Trade list \<Rightarrow> error + real list" where
  "durations [] = Inr []"
| "durations (t # ts) =
     (case t_entry_time t of None \<Rightarrow> Inl TypeError
      | Some et \<Rightarrow> (case durations ts of Inl e \<Rightarrow> Inl e
                     | Inr ds \<Rightarrow> Inr ((t_exit_time t - et) # ds)))"

text \<open>
  \<^verbatim>\<open>BacktestEngine._calculate_metrics\<close>. The profit factor keeps its default \<open>0.0\<close>
  unless the losing trades have a positive total.
\<close>

definition calculate_metrics :: "BacktestConfig \<Rightarrow> PortfolioState \<Rightarrow> Trade list
    \<Rightarrow> error + BacktestMetrics" where
  "calculate_metrics cfg final_portfolio trades =
     (if trades = [] then Inr (BacktestMetrics_init\<lparr>total_return_percent := 0\<rparr>)
      else
        let m0 = BacktestMetrics_init;
            n = length trades;
            wins = length (filter is_profitable trades);
            m1 = m0\<lparr>total_trades := n, winning_trades := wins, losing_trades := n - wins\<rparr>;
            m2 = (if total_trades m1 > 0
                  then m1\<lparr>win_rate := (real (winning_trades m1) / real (total_trades m1)) * 100\<rparr>
                  else m1);
            winning_pnls = map t_pnl_after_commission (filter is_profitable trades);
            losing_pnls = map (\<lambda>t. \<bar>t_pnl_after_commission t\<bar>)
                              (filter (\<lambda>t. \<not> is_profitable t) trades);
            m3 = (if winning_pnls \<noteq> []
                  then m2\<lparr>average_win := sum_list winning_pnls / real (length winning_pnls)\<rparr>
                  else m2);
            m4 = (if losing_pnls \<noteq> []
                  then m3\<lparr>average_loss := sum_list losing_pnls / real (length losing_pnls)\<rparr>
                  else m3);
            m5 = (if average_loss m4 > 0 \<and> sum_list losing_pnls > 0
                  then m4\<lparr>profit_factor := sum_list winning_pnls / sum_list losing_pnls\<rparr>
                  else m4);
            m6 = m5\<lparr>best_trade_percent := list_max (map t_pnl_percent trades),
                     worst_trade_percent := list_min (map t_pnl_percent trades)\<rparr>
        in case durations trades of Inl e \<Rightarrow> Inl e
           | Inr ds \<Rightarrow>
               let avg_duration = sum_list ds / real (length trades);
                   m7 = m6\<lparr>average_trade_duration_days := avg_duration / 86400\<rparr>;
                   final_balance = total_equity final_portfolio
               in if initial_balance cfg = 0 then Inl ZeroDivisionError
                  else Inr (m7\<lparr>total_return_percent :=
                                  ((final_balance - initial_balance cfg) / initial_balance cfg) * 100\<rparr>))"

text \<open>
  \<^verbatim>\<open>run_backtest\<close>: build the strategies, create the portfolio object, run the candles,
  compute the metrics. \<open>clock\<close> gives the wall-clock reading used by the constructors
  called while candle \<open>i\<close> is processed. \<^verbatim>\<open>min\<close> over an empty dictionary raises.
\<close>

definition init_strategies :: "StrategyConfig list
    \<Rightarrow> (string \<times> (GridTradingStrategy option \<times> GridTradingStrategy option)) list" where
  "init_strategies strategy_configs =
     fold (\<lambda>config strategies.
             AList.update (sc_symbol config)
               (if enable_long config
                then Some (GridTradingStrategy_init (sc_symbol config) LONG (long_params config))
                else None,
                if enable_short config
                then Some (GridTradingStrategy_init (sc_symbol config) SHORT (short_params config))
                else None)
               strategies)
          strategy_configs []"

definition num_candles_of :: "(string \<times> MarketData) list \<Rightarrow> error + nat" where
  "num_candles_of market_data_dict =
     (case map (\<lambda>(k, d). length (md_candles d)) market_data_dict of
        [] \<Rightarrow> Inl ValueError
      | n # ns \<Rightarrow> Inr (fold min ns n))"

definition run_backtest :: "BacktestEngine \<Rightarrow> (nat \<Rightarrow> real) \<Rightarrow> (string \<times> MarketData) list
    \<Rightarrow> StrategyConfig list \<Rightarrow> error + (BacktestMetrics \<times> BacktestEngine)" where
  "run_backtest eng clock market_data_dict strategy_configs =
     (let strategies = init_strategies strategy_configs;
          portfolio = PortfolioState_init 0 (initial_balance (be_config eng));
          a = length (heap eng);
          eng1 = eng\<lparr>heap := heap eng @ [portfolio]\<rparr>
      in case num_candles_of market_data_dict of Inl e \<Rightarrow> Inl e
         | Inr num_candles \<Rightarrow>
             let ls0 = \<lparr>ls_strategies = strategies, ls_pending_orders = [],
                        ls_portfolio = portfolio, ls_all_trades = all_trades eng1\<rparr>
             in case process_candles clock market_data_dict a [0 ..< num_candles] (eng1, ls0) of
                  Inl e \<Rightarrow> Inl e
                | Inr (eng2, ls) \<Rightarrow>
                    (case calculate_metrics (be_config eng2) (heap eng2 ! a) (all_trades eng2) of
                       Inl e \<Rightarrow> Inl e
                     | Inr metrics \<Rightarrow> Inr (metrics, eng2)))"

section \<open>Metrics calculator (src/backtest/metrics.py)\<close>

record TradeMetrics =
  tm_entry_price :: real
  tm_exit_price :: real
  tm_quantity :: real
  profit_loss :: real
  profit_loss_percent :: real
  duration :: int
  max_profit :: real
  max_loss :: real

text \<open>
  \<^verbatim>\<open>TradeMetrics\<close> without its two \<^verbatim>\<open>datetime\<close> fields.
  \<^verbatim>\<open>MetricsCalculator.calculate_profit_factor\<close> returns a float that can be
  \<^verbatim>\<open>float('inf')\<close>.
\<close>

definition calculate_profit_factor :: "TradeMetrics list \<Rightarrow> pyfloat" where
  "calculate_profit_factor trades =
     (let gross_profit = sum_list (map profit_loss (filter (\<lambda>t. profit_loss t > 0) trades));
          gross_loss = sum_list (map (\<lambda>t. \<bar>profit_loss t\<bar>) (filter (\<lambda>t. profit_loss t < 0) trades))
      in if gross_loss = 0 then (if gross_profit > 0 then PInf else Fin 0)
         else Fin (gross_profit / gross_loss))"

section \<open>A sample backtest\<close>

text \<open>
  One symbol, the long strategy only, one grid level, take profit at 1 percent,
  the default fees and slippage, and four hourly candles: the signal and the grid order
  on the first, the fill on the second, the take profit on the third, and a fourth
  candle after the position is closed.
\<close>

definition sample_params :: GridTradingParams where
  "sample_params =
     \<lparr>gp_initial_position_size = 100, gp_grid_spacing_percent = 0.5, gp_grid_levels = 1,
      gp_take_profit_percent = 1, gp_max_drawdown_percent = 5,
      gp_max_position_size_percent = 20, gp_order_type = ''limit'',
      gp_limit_order_timeout_seconds = 300\<rparr>"

definition sample_strategy_config :: StrategyConfig where
  "sample_strategy_config =
     \<lparr>sc_symbol = ''BTCUSDC'', long_params = sample_params, short_params = sample_params,
      enable_long = True, enable_short = False\<rparr>"

definition sample_config :: BacktestConfig where
  "sample_config =
     \<lparr>initial_balance = 10000, maker_fee_percent = 0.1, taker_fee_percent = 0.1,
      slippage_percent = 0.05\<rparr>"

definition candle_of :: "real \<Rightarrow> real \<Rightarrow> real \<Rightarrow> real \<Rightarrow> real \<Rightarrow> Candle" where
  "candle_of ts op hi lo cl =
     \<lparr>c_timestamp = ts, c_open = op, c_high = hi, c_low = lo, c_close = cl, c_volume = 1000,
      c_quote_asset_volume = None\<rparr>"

definition sample_candles :: "Candle list" where
  "sample_candles =
     [candle_of 0 100 100 100 100, candle_of 3600 100 100 99 100,
      candle_of 7200 100 102 100 102, candle_of 10800 102 102 101 101]"

definition sample_md :: MarketData where
  "sample_md = \<lparr>md_symbol = ''BTCUSDC'', md_candles = sample_candles, md_timeframe = ''1h''\<rparr>"

definition sample_market :: "(string \<times> MarketData) list" where
  "sample_market = [(''BTCUSDC'', sample_md)]"

definition sample_engine :: BacktestEngine where
  "sample_engine = BacktestEngine_init sample_config"

definition sample_strategy :: GridTradingStrategy where
  "sample_strategy = GridTradingStrategy_init ''BTCUSDC'' LONG sample_params"

text \<open>The values the run goes through: the grid order, the position, the trade.\<close>

definition sample_order :: Order where
  "sample_order = Order_init 0 ''BTCUSDC_long_grid_0'' ''BTCUSDC'' LONG LIMIT 10 (Some 100)"

definition sample_position :: Position where
  "sample_position =
     \<lparr>position_id = ''BTCUSDC_long_1'', p_symbol = ''BTCUSDC'', p_trade_type = LONG,
      p_entry_price = 100.05, p_quantity = 10, p_entry_time = Some 3600, p_entry_orders = []\<rparr>"

definition sample_portfolio_open :: PortfolioState where
  "sample_portfolio_open =
     \<lparr>ps_timestamp = 0, cash_balance = 8998.4995, positions = [(''BTCUSDC'', sample_position)],
      closed_trades = [], total_fees = 1.0005\<rparr>"

definition sample_trade :: Trade where
  "sample_trade =
     \<lparr>trade_id = ''BTCUSDC_L_2'', t_symbol = ''BTCUSDC'', t_entry_price = 100.05,
      t_exit_price = 102, t_quantity = 10, t_entry_time = Some 3600, t_exit_time = 7200,
      t_pnl = 19.5, t_pnl_after_commission = 18.48, t_pnl_percent = 19.5 / 1000.5 * 100\<rparr>"

definition sample_portfolio_closed :: PortfolioState where
  "sample_portfolio_closed =
     \<lparr>ps_timestamp = 0, cash_balance = 10017.4795, positions = [],
      closed_trades = [sample_trade], total_fees = 2.0205\<rparr>"

definition sample_strategy_latched :: GridTradingStrategy where
  "sample_strategy_latched =
     sample_strategy\<lparr>entry_signal_generated := True, grid_prices := [100],
                     current_max_price := 102, current_min_price := Fin 100\<rparr>"

text \<open>The loop state before the first candle and after each of the four candles.\<close>

definition sample_start :: "BacktestEngine \<times> LoopState" where
  "sample_start =
     (sample_engine\<lparr>heap := [PortfolioState_init 0 10000]\<rparr>,
      \<lparr>ls_strategies = [(''BTCUSDC'', (Some sample_strategy, None))], ls_pending_orders = [],
       ls_portfolio = PortfolioState_init 0 10000, ls_all_trades = []\<rparr>)"

definition sample_after_0 :: "BacktestEngine \<times> LoopState" where
  "sample_after_0 =
     (sample_engine\<lparr>heap := [PortfolioState_init 0 10000], portfolio_history := [0]\<rparr>,
      \<lparr>ls_strategies = [(''BTCUSDC'',
          (Some (sample_strategy\<lparr>entry_signal_generated := True, grid_prices := [100]\<rparr>), None))],
       ls_pending_orders = [(''BTCUSDC'', [sample_order])],
       ls_portfolio = PortfolioState_init 0 10000, ls_all_trades = []\<rparr>)"

definition sample_after_1 :: "BacktestEngine \<times> LoopState" where
  "sample_after_1 =
     (sample_engine\<lparr>heap := [sample_portfolio_open], portfolio_history := [0, 0]\<rparr>,
      \<lparr>ls_strategies = [(''BTCUSDC'',
          (Some (sample_strategy\<lparr>entry_signal_generated := True, grid_prices := [100],
                   current_max_price := 100, current_min_price := Fin 100\<rparr>), None))],
       ls_pending_orders = [(''BTCUSDC'', [])],
       ls_portfolio = sample_portfolio_open, ls_all_trades = []\<rparr>)"

definition sample_after_2 :: "BacktestEngine \<times> LoopState" where
  "sample_after_2 =
     (sample_engine\<lparr>heap := [sample_portfolio_closed], portfolio_history := [0, 0, 0],
                    all_trades := [sample_trade]\<rparr>,
      \<lparr>ls_strategies = [(''BTCUSDC'', (Some sample_strategy_latched, None))],
       ls_pending_orders = [(''BTCUSDC'', [])],
       ls_portfolio = sample_portfolio_closed, ls_all_trades = [sample_trade]\<rparr>)"

definition sample_after_3 :: "BacktestEngine \<times> LoopState" where
  "sample_after_3 =
     (sample_engine\<lparr>heap := [sample_portfolio_closed], portfolio_history := [0, 0, 0, 0],
                    all_trades := [sample_trade]\<rparr>,
      \<lparr>ls_strategies = [(''BTCUSDC'', (Some sample_strategy_latched, None))],
       ls_pending_orders = [(''BTCUSDC'', [])],
       ls_portfolio = sample_portfolio_closed, ls_all_trades = [sample_trade]\<rparr>)"

text \<open>The closed trade of the run as the metrics calculator's \<^verbatim>\<open>TradeMetrics\<close>.\<close>

definition sample_trade_metrics :: TradeMetrics where
  "sample_trade_metrics =
     \<lparr>tm_entry_price = 100.05, tm_exit_price = 102, tm_quantity = 10, profit_loss = 18.48,
      profit_loss_percent = 19.5 / 1000.5 * 100, duration = 1, max_profit = 18.48, max_loss = 0\<rparr>"

text \<open>
  A volatility calculator with the default periods that has seen the two candles
  \<open>100\<close> and \<open>110\<close> (open, high, low and close all equal).
\<close>

definition sample_calculator :: VolatilityCalculator where
  "sample_calculator =
     (VolatilityCalculator_init 20 2 14 0.33)
       \<lparr>closes := [100, 110], highs := [100, 110], lows := [100, 110], opens := [100, 110],
        previous_ewma := Some 0\<rparr>"

section \<open>The position invariant of the specification\<close>

text \<open>
  The invariant the specification states for a position: its quantity is the sum of
  the filled quantities of its entry orders, and its entry price is their
  volume-weighted average fill price (written without the division: entry price times
  total filled quantity equals the total filled value).
\<close>

definition filled_value :: "Order \<Rightarrow> real" where
  "filled_value order =
     o_filled_quantity order * (case o_filled_price order of None \<Rightarrow> 0 | Some fp \<Rightarrow> fp)"

definition spec_entry_orders_invariant :: "Position \<Rightarrow> bool" where
  "spec_entry_orders_invariant pos =
     (p_quantity pos = sum_list (map o_filled_quantity (p_entry_orders pos)) \<and>
      p_entry_price pos * sum_list (map o_filled_quantity (p_entry_orders pos))
        = sum_list (map filled_value (p_entry_orders pos)))"

section \<open>The sample inputs are well formed\<close>

lemma sample_candles_valid: "list_all (\<lambda>c. Candle_post_init c = Inr c) sample_candles"
  by (simp add: sample_candles_def candle_of_def Candle_post_init_def)

section \<open>Limit-order matching\<close>

text \<open>
  C7. A LONG limit order with price \<open>pr\<close> is filled exactly when the candle's low is at
  most \<open>pr\<close>: the executor then reports the full order quantity at the price
  \<open>min pr close\<close> times \<open>1 + slippage\<close>, and otherwise reports \<open>(0, 0)\<close>. For an order
  of positive quantity the test of the engine, filled quantity \<open>> 0\<close>, holds exactly
  when \<open>low \<le> pr\<close>; so an order at \<open>pr = low\<close> fills and one at \<open>pr < low\<close> does not.
  A SHORT order that is filled is priced at \<open>max pr close\<close> times \<open>1 - slippage\<close>.
\<close>

theorem execute_limit_order_long_fills_iff:
  "(o_trade_type order = LONG \<and> o_price order = Some pr \<longrightarrow>
      execute_limit_order ex order candle =
        (if c_low candle \<le> pr
         then Inr (o_quantity order, min pr (c_close candle) * (1 + slippage ex))
         else Inr (0, 0)) \<and>
      (0 < o_quantity order \<longrightarrow>
         (\<exists>q fp. execute_limit_order ex order candle = Inr (q, fp) \<and>
                  (0 < q \<longleftrightarrow> c_low candle \<le> pr)))) \<and>
   (o_trade_type order = SHORT \<and> o_price order = Some pr \<and> c_high candle \<ge> pr \<longrightarrow>
      execute_limit_order ex order candle =
        Inr (o_quantity order, max pr (c_close candle) * (1 - slippage ex)))"
  by (simp add: execute_limit_order_def)

theorem execute_limit_order_long_fills_iff_witness:
  "o_trade_type sample_order = LONG \<and> o_price sample_order = Some 100 \<and>
   0 < o_quantity sample_order \<and>
   execute_limit_order (OrderExecutor_init 0.1 0.1 0.05) sample_order
       (candle_of 3600 101 102 100 101) = Inr (10, 100.05) \<and>
   execute_limit_order (OrderExecutor_init 0.1 0.1 0.05) sample_order
       (candle_of 3600 101 102 100.5 101) = Inr (0, 0) \<and>
   o_trade_type (sample_order\<lparr>o_trade_type := SHORT\<rparr>) = SHORT \<and>
   execute_limit_order (OrderExecutor_init 0.1 0.1 0.05) (sample_order\<lparr>o_trade_type := SHORT\<rparr>)
       (candle_of 3600 101 102 100 101) = Inr (10, 100.9495)"
  using execute_limit_order_long_fills_iff
          [where order = sample_order and pr = 100 and ex = "OrderExecutor_init 0.1 0.1 0.05"
             and candle = "candle_of 3600 101 102 100 101"]
        execute_limit_order_long_fills_iff
          [where order = sample_order and pr = 100 and ex = "OrderExecutor_init 0.1 0.1 0.05"
             and candle = "candle_of 3600 101 102 100.5 101"]
        execute_limit_order_long_fills_iff
          [where order = "sample_order\<lparr>o_trade_type := SHORT\<rparr>" and pr = 100
             and ex = "OrderExecutor_init 0.1 0.1 0.05"
             and candle = "candle_of 3600 101 102 100 101"]
  by (simp add: sample_order_def Order_init_def OrderExecutor_init_def candle_of_def)

section \<open>Volatility classification\<close>

text \<open>
  With a non-negative high threshold, every value above it is already answered by the
  \<open>HIGH\<close> branch, so the \<open>EXTREME\<close> branch behind it is never taken.
\<close>

lemma classify_volatility_never_extreme:
  "0 \<le> high_volatility_threshold cfg \<Longrightarrow> classify_volatility cfg v \<noteq> ''EXTREME''"
  by (simp add: classify_volatility_def)

text \<open>
  C5. The claim asks for \<open>EXTREME\<close> above 1.5 times the high threshold. With the
  default thresholds (low 1, high 5) the value 10 is above 7.5, and the code answers
  \<open>HIGH\<close>.
\<close>

theorem classify_volatility_extreme_is_high:
  "high_volatility_threshold AdaptiveParameterConfig_default * 1.5 < 10 \<and>
   classify_volatility AdaptiveParameterConfig_default 10 = ''HIGH''"
  by (simp add: classify_volatility_def AdaptiveParameterConfig_default_def)

section \<open>Exit check without a position\<close>

text \<open>
  C9 as stated fails: an exit check on a fresh strategy, with no position passed and
  none held, returns normally with no signal.
\<close>

theorem check_exit_conditions_no_position_counterexample:
  "check_exit_conditions sample_strategy 0 100 10000 None = Inr (None, sample_strategy)"
  by (simp add: check_exit_conditions_def sample_strategy_def GridTradingStrategy_init_def)

text \<open>
  C9, amended. When no position is open (the argument and the strategy's own position
  are both \<^verbatim>\<open>None\<close>, or the position that is looked at has quantity \<open>\<le> 0\<close>), the exit
  check returns \<^verbatim>\<open>None\<close> without an error and leaves the strategy as it was.
\<close>

theorem check_exit_conditions_no_position:
  "(case position_arg of
      Some p \<Rightarrow> \<not> is_open p
    | None \<Rightarrow> (case position s of None \<Rightarrow> True | Some p \<Rightarrow> \<not> is_open p)) \<longrightarrow>
   check_exit_conditions s now current_price account_equity position_arg = Inr (None, s)"
  by (simp add: check_exit_conditions_def split: option.splits)

theorem check_exit_conditions_no_position_witness:
  "position sample_strategy = None \<and>
   check_exit_conditions sample_strategy 0 100 10000 None = Inr (None, sample_strategy) \<and>
   \<not> is_open (sample_position\<lparr>p_quantity := 0\<rparr>) \<and>
   check_exit_conditions sample_strategy 0 100 10000 (Some (sample_position\<lparr>p_quantity := 0\<rparr>))
     = Inr (None, sample_strategy)"
  using check_exit_conditions_no_position
          [where position_arg = None and s = sample_strategy and now = 0
             and current_price = 100 and account_equity = 10000]
        check_exit_conditions_no_position
          [where position_arg = "Some (sample_position\<lparr>p_quantity := 0\<rparr>)"
             and s = sample_strategy and now = 0 and current_price = 100
             and account_equity = 10000]
  by (simp add: sample_strategy_def GridTradingStrategy_init_def is_open_def sample_position_def)

section \<open>Strategy reset\<close>

text \<open>
  C10. \<open>reset\<close> sets \<^verbatim>\<open>state\<close>, \<^verbatim>\<open>position\<close>, \<^verbatim>\<open>entry_signal_generated\<close>,
  \<^verbatim>\<open>entry_orders\<close> and \<^verbatim>\<open>exit_orders\<close>, and every other field of the strategy keeps
  its value: \<^verbatim>\<open>grid_prices\<close>, \<^verbatim>\<open>current_max_price\<close> and \<^verbatim>\<open>current_min_price\<close> among them.
\<close>

theorem reset_frame:
  "state (reset s) = IDLE \<and> position (reset s) = None \<and>
   entry_signal_generated (reset s) = False \<and>
   entry_orders (reset s) = [] \<and> exit_orders (reset s) = [] \<and>
   s_symbol (reset s) = s_symbol s \<and> s_trade_type (reset s) = s_trade_type s \<and>
   vol_calculator (reset s) = vol_calculator s \<and> param_engine (reset s) = param_engine s \<and>
   current_measures (reset s) = current_measures s \<and>
   current_scaled (reset s) = current_scaled s \<and>
   params (reset s) = params s \<and> grid_prices (reset s) = grid_prices s \<and>
   current_max_price (reset s) = current_max_price s \<and>
   current_min_price (reset s) = current_min_price s"
  by (simp add: reset_def)

section \<open>Volatility snapshot\<close>

lemma update_composite_zero:
  "update vc h l c op = Inr (ms, vc') \<Longrightarrow> composite ms = 0"
  by (auto simp: update_def Let_def split: sum.splits prod.splits)

lemmas vol_defs = update_def VolatilityCalculator_init_def calculate_bollinger_bandwidth_def
  calculate_garman_klass_def calculate_atr_def calculate_ewma_def Let_def variance_def mean_def

text \<open>\<open>sample_calculator\<close> is a fresh calculator after two updates.\<close>

lemma sample_calculator_reached:
  "update (VolatilityCalculator_init 20 2 14 0.33) 100 100 100 100 =
     Inr (\<lparr>bollinger_bandwidth = 0, garman_klass = 0, atr = 0, ewma = 0, composite = 0\<rparr>,
          (VolatilityCalculator_init 20 2 14 0.33)
            \<lparr>closes := [100], highs := [100], lows := [100], opens := [100]\<rparr>)"
  "update ((VolatilityCalculator_init 20 2 14 0.33)
            \<lparr>closes := [100], highs := [100], lows := [100], opens := [100]\<rparr>) 110 110 110 110 =
     Inr (\<lparr>bollinger_bandwidth = 0, garman_klass = 0, atr = 0, ewma = 0, composite = 0\<rparr>,
          sample_calculator)"
  by (simp_all add: vol_defs sample_calculator_def)

text \<open>
  C6. The claim asks for a composite equal to the weighted sum of the four measures.
  The third update, with the candle \<open>121\<close>, returns an EWMA measure of
  \<open>sqrt 0.0033 * 100\<close> and the other three measures zero (fewer candles than their
  periods): the equal-weight sum, which \<open>get_composite_volatility\<close> computes, is
  positive, and the snapshot's \<open>composite\<close> field is \<open>0\<close>.
\<close>

theorem update_composite_not_weighted_sum:
  "\<exists>ms vc. update sample_calculator 121 121 121 121 = Inr (ms, vc) \<and>
     bollinger_bandwidth ms = 0 \<and> garman_klass ms = 0 \<and> atr ms = 0 \<and>
     ewma ms = sqrt (33 / 10000) * 100 \<and>
     composite ms = 0 \<and>
     get_composite_volatility ms = 0.25 * ewma ms \<and>
     0 < get_composite_volatility ms"
  by (simp add: vol_defs sample_calculator_def power2_eq_square get_composite_volatility_def)

section \<open>Profit factor\<close>

text \<open>
  \<^verbatim>\<open>MetricsCalculator.calculate_profit_factor\<close> does what the specification says:
  the quotient, the infinite value for profit without loss, zero for neither.
\<close>

lemma calculate_profit_factor_cases:
  fixes trades :: "TradeMetrics list"
  defines "gross_profit \<equiv> sum_list (map profit_loss (filter (\<lambda>t. profit_loss t > 0) trades))"
    and "gross_loss \<equiv> sum_list (map (\<lambda>t. \<bar>profit_loss t\<bar>) (filter (\<lambda>t. profit_loss t < 0) trades))"
  shows "gross_loss \<noteq> 0 \<Longrightarrow> calculate_profit_factor trades = Fin (gross_profit / gross_loss)"
    and "gross_loss = 0 \<Longrightarrow> gross_profit > 0 \<Longrightarrow> calculate_profit_factor trades = PInf"
    and "gross_loss = 0 \<Longrightarrow> gross_profit = 0 \<Longrightarrow> calculate_profit_factor trades = Fin 0"
  by (simp_all add: calculate_profit_factor_def gross_profit_def gross_loss_def)

text \<open>
  The engine's own \<^verbatim>\<open>_calculate_metrics\<close>, which produces the metrics a backtest
  returns, leaves the profit factor at \<open>0\<close> whenever no trade is a losing one.
\<close>

lemma calculate_metrics_all_winning:
  assumes "trades \<noteq> []" "\<forall>t \<in> set trades. is_profitable t"
    and "calculate_metrics cfg final_portfolio trades = Inr m"
  shows "profit_factor m = 0"
proof -
  from assms(2) have "filter (\<lambda>t. \<not> is_profitable t) trades = []"
    by (simp add: filter_empty_conv)
  with assms(1,3) show ?thesis
    by (auto simp: calculate_metrics_def Let_def BacktestMetrics_init_def
        split: sum.splits if_splits)
qed

text \<open>
  C8. For the one winning trade of the sample run the metrics of the engine report a
  profit factor of \<open>0\<close>, where the claim asks for the infinite value; the metrics
  calculator returns the infinite value for the same trade.
\<close>

theorem engine_profit_factor_all_winning:
  "is_profitable sample_trade \<and>
   map_sum id profit_factor (calculate_metrics sample_config sample_portfolio_closed [sample_trade])
     = Inr 0 \<and>
   profit_loss sample_trade_metrics = t_pnl_after_commission sample_trade \<and>
   calculate_profit_factor [sample_trade_metrics] = PInf"
  by (simp add: calculate_metrics_def Let_def sample_trade_def is_profitable_def
      BacktestMetrics_init_def sample_config_def calculate_profit_factor_def
      sample_trade_metrics_def)

section \<open>The sample run, candle by candle\<close>

lemma sample_volatility: "\<exists>v. calculate_volatility sample_md 20 = Inr v \<and> 1 / 10 \<le> v"
proof -
  have "(1 / 1000 :: real)\<^sup>2 \<le> ((13 / 3825)\<^sup>2 + ((127 / 7650)\<^sup>2 + (101 / 7650)\<^sup>2)) / 3"
    by (simp add: power2_eq_square)
  then have "1 / 1000 \<le> sqrt (((13 / 3825)\<^sup>2 + ((127 / 7650)\<^sup>2 + (101 / 7650)\<^sup>2)) / 3)"
    by (rule real_le_rsqrt)
  then show ?thesis
    by (simp add: sample_md_def sample_candles_def candle_of_def calculate_volatility_def
      get_last_n_candles_def last_n_def variance_def mean_def)
qed

text \<open>Once the flag is set, \<open>analyze\<close> returns no signal, whatever the market data.\<close>

lemma analyze_latched: "entry_signal_generated s \<Longrightarrow> analyze s now md = Inr ([], s)"
  by (simp add: analyze_def)

lemma analyze_emits:
  assumes "state s = IDLE" "\<not> entry_signal_generated s"
    and "calculate_volatility md 20 = Inr v" "1 / 10 \<le> v"
  shows "\<exists>sg. analyze s now md = Inr ([sg], s\<lparr>entry_signal_generated := True\<rparr>)"
  using assms by (simp add: analyze_def Signal_init_def Let_def)

lemma str_nat_digit: "n < 10 \<Longrightarrow> str_nat n = [digit_char n]"
  by (simp add: str_nat.simps)

lemma sample_strategy_fields:
  "s_symbol sample_strategy = ''BTCUSDC''" "s_trade_type sample_strategy = LONG"
  "state sample_strategy = IDLE" "position sample_strategy = None"
  "current_scaled sample_strategy = None" "params sample_strategy = sample_params"
  "grid_prices sample_strategy = []" "\<not> entry_signal_generated sample_strategy"
  "current_max_price sample_strategy = 0" "current_min_price sample_strategy = PInf"
  by (simp_all add: sample_strategy_def GridTradingStrategy_init_def)

lemmas run_defs = process_candle_def process_symbol_def sample_market_def
  sample_engine_def BacktestEngine_init_def step1_check_pending_def step3_entry_def
  step4_exit_def PortfolioState_init_def sample_config_def candle_of_def Let_def
  generate_grid_orders_def sample_params_def
  pending_extend_def grid_order_def grid_price_def sample_order_def
  str_nat_digit digit_char_def Order_init_def sample_strategy_fields
  process_filled_order_def execute_limit_order_def calculate_commission_def
  OrderExecutor_init_def check_exit_conditions_def is_open_def
  calculate_unrealized_pnl_percent_def calculate_unrealized_pnl_def total_equity_def
  close_position_def exit_signal_def Signal_init_def sample_position_def analyze_latched
  sample_portfolio_open_def sample_portfolio_closed_def
  sample_trade_def sample_strategy_latched_def

text \<open>Candle 0: the signal; one grid order at 100 for 10 units is pending.\<close>

lemma sample_candle_0:
  "process_candle (\<lambda>i. 0) sample_market 0 0 sample_start = Inr sample_after_0"
proof -
  obtain v where v: "calculate_volatility sample_md 20 = Inr v" "1 / 10 \<le> v"
    using sample_volatility by blast
  obtain sg where sg: "analyze sample_strategy 0 sample_md
      = Inr ([sg], sample_strategy\<lparr>entry_signal_generated := True\<rparr>)"
    using analyze_emits [OF sample_strategy_fields(3) sample_strategy_fields(8) v] by blast
  have cl: "md_candles sample_md ! 0 = candle_of 0 100 100 100 100"
    by (simp add: sample_md_def sample_candles_def)
  show ?thesis
    by (simp add: sample_start_def sample_after_0_def run_defs cl sg)
qed

text \<open>Candle 1: the order fills at 100.05; the position is opened.\<close>

lemma sample_candle_1:
  "process_candle (\<lambda>i. 0) sample_market 0 (Suc 0) sample_after_0 = Inr sample_after_1"
proof -
  have cl: "md_candles sample_md ! Suc 0 = candle_of 3600 100 100 99 100"
    by (simp add: sample_md_def sample_candles_def)
  show ?thesis
    by (simp add: sample_after_0_def sample_after_1_def run_defs cl)
qed

text \<open>Candle 2: the close of 102 is a profit of more than 1 percent; the position is closed.\<close>

lemma sample_candle_2:
  "process_candle (\<lambda>i. 0) sample_market 0 2 sample_after_1 = Inr sample_after_2"
proof -
  have cl: "md_candles sample_md ! 2 = candle_of 7200 100 102 100 102"
    by (simp add: sample_md_def sample_candles_def)
  show ?thesis
    by (simp add: sample_after_1_def sample_after_2_def run_defs cl)
qed

text \<open>Candle 3: nothing is pending, nothing is open, and no signal comes.\<close>

lemma sample_candle_3:
  "process_candle (\<lambda>i. 0) sample_market 0 3 sample_after_2 = Inr sample_after_3"
proof -
  have cl: "md_candles sample_md ! 3 = candle_of 10800 102 102 101 101"
    by (simp add: sample_md_def sample_candles_def)
  show ?thesis
    by (simp add: sample_after_2_def sample_after_3_def run_defs cl)
qed

lemma upt_4: "[0 ..< 4] = [0, Suc 0, 2, 3]"
  by (simp add: upt_rec)

lemma sample_candles_all:
  "process_candles (\<lambda>i. 0) sample_market 0 [0 ..< 4] sample_start = Inr sample_after_3"
  by (simp only: upt_4 process_candles.simps sample_candle_0 sample_candle_1 sample_candle_2
      sample_candle_3 sum.case)

text \<open>The whole of \<open>run_backtest\<close> on the sample: it returns, with the engine of \<open>sample_after_3\<close>.\<close>

lemma sample_run_backtest:
  "\<exists>metrics. run_backtest sample_engine (\<lambda>i. 0) sample_market [sample_strategy_config]
      = Inr (metrics, fst sample_after_3)"
proof -
  have n: "num_candles_of sample_market = Inr 4"
    by (simp add: num_candles_of_def sample_market_def sample_md_def sample_candles_def)
  have s: "init_strategies [sample_strategy_config] = [(''BTCUSDC'', (Some sample_strategy, None))]"
    by (simp add: init_strategies_def sample_strategy_config_def sample_strategy_def)
  have h: "heap sample_engine = []" "all_trades sample_engine = []"
     "initial_balance (be_config sample_engine) = 10000"
    by (simp_all add: sample_engine_def BacktestEngine_init_def sample_config_def)
  have st: "(sample_engine\<lparr>heap := heap sample_engine @ [PortfolioState_init 0 10000]\<rparr>,
      \<lparr>ls_strategies = [(''BTCUSDC'', (Some sample_strategy, None))], ls_pending_orders = [],
       ls_portfolio = PortfolioState_init 0 10000,
       ls_all_trades = all_trades
          (sample_engine\<lparr>heap := heap sample_engine @ [PortfolioState_init 0 10000]\<rparr>)\<rparr>)
     = sample_start"
    by (simp add: sample_start_def h)
  have "\<exists>metrics. calculate_metrics sample_config sample_portfolio_closed [sample_trade] = Inr metrics"
    by (simp add: calculate_metrics_def Let_def sample_trade_def sample_config_def)
  then obtain metrics where
    mm: "calculate_metrics sample_config sample_portfolio_closed [sample_trade] = Inr metrics"
    by blast
  have f: "be_config (fst sample_after_3) = sample_config"
     "heap (fst sample_after_3) ! 0 = sample_portfolio_closed"
     "all_trades (fst sample_after_3) = [sample_trade]"
    by (simp_all add: sample_after_3_def sample_engine_def BacktestEngine_init_def)
  have "run_backtest sample_engine (\<lambda>i. 0) sample_market [sample_strategy_config]
      = Inr (metrics, fst sample_after_3)"
    unfolding run_backtest_def Let_def n s h(3) sum.case st
    by (simp add: h sample_candles_all prod.case_eq_if f mm)
  then show ?thesis by blast
qed

section \<open>Entry orders of a position\<close>

text \<open>
  Whatever the fill, the engine's position for the symbol has the entry orders it had
  before, and none if it is new: the filled order is never recorded.
\<close>

lemma process_filled_order_entry_orders:
  "process_filled_order ex smb candle_idx candle portfolio filled = Inr portfolio' \<Longrightarrow>
   \<exists>pos'. map_of (positions portfolio') smb = Some pos' \<and>
     p_entry_orders pos' = (case map_of (positions portfolio) smb of None \<Rightarrow> []
                            | Some pos \<Rightarrow> p_entry_orders pos)"
  by (auto simp: process_filled_order_def Let_def update_conv'
      split: prod.splits option.splits if_splits)

text \<open>
  \<^verbatim>\<open>Position.add_entry_order\<close>, which the engine does not call, keeps the invariant of
  the specification.
\<close>

lemma add_entry_order_invariant:
  assumes inv: "spec_entry_orders_invariant pos"
    and add: "add_entry_order pos order = Inr pos'"
    and open': "0 < p_quantity pos'"
  shows "spec_entry_orders_invariant pos'"
proof (cases "o_filled_quantity order = 0")
  case True
  with add have "pos' = pos" by (simp add: add_entry_order_def)
  with inv show ?thesis by simp
next
  case False
  with add obtain fp where fp: "o_filled_price order = Some fp"
    by (auto simp: add_entry_order_def split: option.splits)
  define q where "q = p_quantity pos + o_filled_quantity order"
  from add False fp have q': "p_quantity pos' = q"
    and e': "p_entry_price pos' =
        (if q > 0 then (p_quantity pos * p_entry_price pos + o_filled_quantity order * fp) / q
         else 0)"
    and o': "p_entry_orders pos' = p_entry_orders pos @ [order]"
    by (auto simp: add_entry_order_def Let_def q_def)
  from open' q' have qpos: "0 < q" by simp
  from inv have s: "sum_list (map o_filled_quantity (p_entry_orders pos)) = p_quantity pos"
    and v: "sum_list (map filled_value (p_entry_orders pos)) = p_entry_price pos * p_quantity pos"
    by (simp_all add: spec_entry_orders_invariant_def)
  have "p_entry_price pos' * q = p_quantity pos * p_entry_price pos + o_filled_quantity order * fp"
    using qpos e' by simp
  then show ?thesis
    using q' o' s v fp
    by (simp add: spec_entry_orders_invariant_def q_def filled_value_def algebra_simps)
qed

text \<open>
  C1. The claim asks that the position opened by a fill holds that order in
  \<^verbatim>\<open>entry_orders\<close> and that its quantity is the sum of the filled quantities there.
  After the first two candles of the sample run the position is open with quantity
  \<open>10\<close> and an empty \<^verbatim>\<open>entry_orders\<close> list, so the invariant fails.
\<close>

theorem engine_position_entry_orders_empty:
  "process_candles (\<lambda>i. 0) sample_market 0 [0, Suc 0] sample_start = Inr sample_after_1 \<and>
   map_of (positions (ls_portfolio (snd sample_after_1))) ''BTCUSDC'' = Some sample_position \<and>
   p_quantity sample_position = 10 \<and>
   p_entry_orders sample_position = [] \<and>
   sum_list (map o_filled_quantity (p_entry_orders sample_position)) = 0 \<and>
   \<not> spec_entry_orders_invariant sample_position"
proof -
  have "process_candles (\<lambda>i. 0) sample_market 0 [0, Suc 0] sample_start = Inr sample_after_1"
    by (simp only: process_candles.simps sample_candle_0 sample_candle_1 sum.case)
  then show ?thesis
    by (simp add: sample_after_1_def sample_portfolio_open_def sample_position_def
        spec_entry_orders_invariant_def)
qed

section \<open>The latched entry signal\<close>

text \<open>
  Nothing in the loop body clears the flag: the exit check changes the price extremes
  only, the entry step returns a latched strategy as it is, and so a symbol whose long
  strategy has the flag set keeps it set through every candle, with or without a close.
\<close>

lemma check_exit_conditions_flag:
  "check_exit_conditions s now price equity pos = Inr (sg, s') \<Longrightarrow>
   entry_signal_generated s' = entry_signal_generated s"
  by (auto simp: check_exit_conditions_def Let_def split: option.splits if_splits sum.splits)

lemma step3_entry_latched:
  "entry_signal_generated st \<Longrightarrow>
   step3_entry cfg now candle md smb (Some st) pending = Inr (Some st, pending)"
  by (simp add: step3_entry_def analyze_latched)

lemma step4_exit_flag:
  assumes "step4_exit ex now smb i candle (Some l) sh portfolio trades
             = Inr (l', sh', portfolio', trades')"
  shows "\<exists>l2. l' = Some l2 \<and> entry_signal_generated l2 = entry_signal_generated l"
  using assms
  by (auto simp: step4_exit_def Let_def split: option.splits if_splits sum.splits prod.splits
      dest: check_exit_conditions_flag)

lemma process_symbol_latched:
  assumes "process_symbol cfg ex now i mdd smb ls = Inr ls'"
    and "map_of (ls_strategies ls) smb = Some (Some l, sh)"
    and "entry_signal_generated l"
  shows "\<exists>l' sh'. map_of (ls_strategies ls') smb = Some (Some l', sh') \<and>
                  entry_signal_generated l'"
proof (cases "map_of mdd smb")
  case None
  with assms show ?thesis by (auto simp: process_symbol_def)
next
  case (Some md)
  with assms(1,2) obtain pending1 portfolio1 sh1 pending2 pending3 l2 sh2 portfolio2 trades2
    where s4: "step4_exit ex now smb i (md_candles md ! i) (Some l) sh1 portfolio1
                 (ls_all_trades ls) = Inr (l2, sh2, portfolio2, trades2)"
      and ls': "ls' = \<lparr>ls_strategies = AList.update smb (l2, sh2) (ls_strategies ls),
                       ls_pending_orders = pending3, ls_portfolio = portfolio2,
                       ls_all_trades = trades2\<rparr>"
    using assms(3)
    by (auto simp: process_symbol_def Let_def step3_entry_latched split: sum.splits prod.splits)
  from step4_exit_flag [OF s4] assms(3) obtain l3
    where "l2 = Some l3" "entry_signal_generated l3"
    by auto
  with ls' show ?thesis by (simp add: update_conv')
qed

text \<open>
  C2. The claim asks that closing a position resets the strategy, so that a later
  \<open>analyze\<close> can emit a signal. On candle 2 of the sample run the engine closes the
  position, and the strategy it leaves behind still has \<^verbatim>\<open>entry_signal_generated\<close>
  set: \<open>analyze\<close> returns no signal on it, and would return one after \<open>reset\<close>.
\<close>

theorem engine_close_leaves_signal_latched:
  "process_candle (\<lambda>i. 0) sample_market 0 2 sample_after_1 = Inr sample_after_2 \<and>
   map_of (positions (ls_portfolio (snd sample_after_1))) ''BTCUSDC'' = Some sample_position \<and>
   positions (ls_portfolio (snd sample_after_2)) = [] \<and>
   closed_trades (ls_portfolio (snd sample_after_2)) = [sample_trade] \<and>
   map_of (ls_strategies (snd sample_after_2)) ''BTCUSDC'' = Some (Some sample_strategy_latched, None) \<and>
   entry_signal_generated sample_strategy_latched \<and>
   analyze sample_strategy_latched 0 sample_md = Inr ([], sample_strategy_latched) \<and>
   (\<exists>sg. analyze (reset sample_strategy_latched) 0 sample_md
            = Inr ([sg], (reset sample_strategy_latched)\<lparr>entry_signal_generated := True\<rparr>))"
proof -
  obtain v where v: "calculate_volatility sample_md 20 = Inr v" "1 / 10 \<le> v"
    using sample_volatility by blast
  have r: "state (reset sample_strategy_latched) = IDLE"
      "\<not> entry_signal_generated (reset sample_strategy_latched)"
    by (simp_all add: reset_def)
  have l: "entry_signal_generated sample_strategy_latched"
    by (simp add: sample_strategy_latched_def)
  show ?thesis
    using sample_candle_2 analyze_emits [OF r v] analyze_latched [OF l] l
    by (simp add: sample_after_1_def sample_after_2_def sample_portfolio_open_def
        sample_portfolio_closed_def)
qed

section \<open>Total equity\<close>

text \<open>
  With long positions only, the P&L at price \<open>0\<close> is minus the cost of each position:
  the code's total equity is the cash less what the open positions cost.
\<close>

lemma unrealized_pnl_at_zero_long:
  fixes xs :: "(string \<times> Position) list"
  shows "list_all (\<lambda>kv. p_trade_type (snd kv) = LONG) xs \<Longrightarrow>
     sum_list (map (\<lambda>pos. calculate_unrealized_pnl pos 0) (map snd xs))
       = - sum_list (map (\<lambda>kv. p_entry_price (snd kv) * p_quantity (snd kv)) xs)"
  by (induction xs) (auto simp: calculate_unrealized_pnl_def)

lemma total_equity_long:
  assumes "list_all (\<lambda>kv. p_trade_type (snd kv) = LONG) (positions ps)"
  shows "total_equity ps = cash_balance ps
      - sum_list (map (\<lambda>kv. p_entry_price (snd kv) * p_quantity (snd kv)) (positions ps))"
  using unrealized_pnl_at_zero_long [OF assms] by (simp add: total_equity_def)

text \<open>
  C3. The claim asks for cash plus the unrealized P&L at the current market price.
  For the portfolio of the sample run after candle 1 (cash 8998.4995, a long position
  of 10 units entered at 100.05, market price 100) that is \<open>8997.9995\<close>; the code
  evaluates the P&L at price \<open>0\<close> and returns \<open>7997.9995\<close>.
\<close>

theorem total_equity_at_price_zero:
  "ls_portfolio (snd sample_after_1) = sample_portfolio_open \<and>
   c_close (sample_candles ! 1) = 100 \<and>
   cash_balance sample_portfolio_open
     + sum_list (map (\<lambda>pos. calculate_unrealized_pnl pos 100)
                     (map snd (positions sample_portfolio_open))) = 8997.9995 \<and>
   total_equity sample_portfolio_open = 7997.9995"
  by (simp add: sample_after_1_def sample_portfolio_open_def sample_position_def
      total_equity_def calculate_unrealized_pnl_def sample_candles_def candle_of_def)

section \<open>Portfolio history\<close>

text \<open>
  Every candle appends the same reference: after the loop the new part of the history
  is that reference, repeated.
\<close>

lemma process_candles_history:
  "process_candles clock market_data_dict a idxs (eng, ls) = Inr (eng', ls') \<Longrightarrow>
     portfolio_history eng' = portfolio_history eng @ replicate (length idxs) a \<and>
     length (heap eng') = length (heap eng)"
proof (induction idxs arbitrary: eng ls)
  case Nil
  then show ?case by simp
next
  case (Cons i idxs)
  from Cons.prems obtain eng1 ls1 where
    step: "process_candle clock market_data_dict a i (eng, ls) = Inr (eng1, ls1)"
    and rest: "process_candles clock market_data_dict a idxs (eng1, ls1) = Inr (eng', ls')"
    by (auto split: sum.splits)
  from step have "portfolio_history eng1 = portfolio_history eng @ [a]"
      "length (heap eng1) = length (heap eng)"
    by (auto simp: process_candle_def split: sum.splits)
  with Cons.IH [OF rest] show ?case
    by (simp add: replicate_app_Cons_same)
qed

text \<open>
  C4. The claim asks that a history entry keeps the state of its candle. In the sample
  run the portfolio after candle 0 is the initial one (cash 10000, no trade), and the
  history then reads so; after the run all four history entries, the first included,
  read as the final portfolio (cash 10017.4795, one closed trade).
\<close>

theorem portfolio_history_entries_aliased:
  "process_candle (\<lambda>i. 0) sample_market 0 0 sample_start = Inr sample_after_0 \<and>
   get_portfolio_history (fst sample_after_0) = [PortfolioState_init 0 10000] \<and>
   (\<exists>metrics. run_backtest sample_engine (\<lambda>i. 0) sample_market [sample_strategy_config]
                = Inr (metrics, fst sample_after_3)) \<and>
   get_portfolio_history (fst sample_after_3)
     = [sample_portfolio_closed, sample_portfolio_closed, sample_portfolio_closed,
        sample_portfolio_closed] \<and>
   PortfolioState_init 0 10000 \<noteq> sample_portfolio_closed"
  using sample_candle_0 sample_run_backtest
  by (simp add: get_portfolio_history_def sample_after_0_def sample_after_3_def
      PortfolioState_init_def sample_portfolio_closed_def)

end
